theory Spec2Isabelle
  imports Main "HOL-Library.AList" "HOL-Library.Char_ord" "HOL-Library.List_Lexorder"
begin

section \<open>Data model of \<^verbatim>\<open>litecord/pubsub/lazy_guild.py\<close>\<close>

text \<open>
  Exceptions are values. \<open>CollaboratorError\<close> stands for whatever a storage, presence or
  permission call raises; the other constructors are the Python exceptions that the code of
  the module itself can raise.
\<close>

datatype error = AttributeError | KeyError | TypeError | RuntimeError | CollaboratorError string

text \<open>\<^verbatim>\<open>GroupID = Union[int, str]\<close>: a role id, or one of the names \<^verbatim>\<open>'online'\<close>, \<^verbatim>\<open>'offline'\<close>.\<close>

datatype GroupID = RoleID int | Name string

text \<open>
  A permission value is kept as the integer bit-set. The class \<^verbatim>\<open>Permissions\<close> and its
  flag \<^verbatim>\<open>bits.read_messages\<close> live in \<^verbatim>\<open>litecord.permissions\<close>, whose source is not
  included, so reading the flag is a parameter of the collaborators below.
\<close>

type_synonym Permissions = int

record GroupInfo =
  gid :: GroupID
  name :: string
  position :: int
  permissions :: Permissions

text \<open>
  \<^verbatim>\<open>Presence = Dict[str, Any]\<close>. The code reads \<^verbatim>\<open>presence['user']['id']\<close> (the decimal string
  of the member id, kept here as the integer itself, so that \<^verbatim>\<open>int(...)\<close> and the comparison
  with \<^verbatim>\<open>str(user_id)\<close> are the identity and integer equality),
  \<^verbatim>\<open>presence['user']['username']\<close>, \<^verbatim>\<open>presence['status']\<close> and \<^verbatim>\<open>presence['roles']\<close>; every
  other key is carried in \<open>p_other\<close>.
\<close>

record Presence =
  p_user_id :: int
  p_username :: string
  p_status :: string
  p_roles :: "int list"
  p_other :: "(string \<times> string) list"

text \<open>
  The argument \<^verbatim>\<open>partial_presence\<close> of \<^verbatim>\<open>pres_update\<close>: a dictionary holding some of the
  keys of a presence.
\<close>

record PartialPresence =
  pp_user :: "(int \<times> string) option"
  pp_status :: "string option"
  pp_roles :: "int list option"
  pp_other :: "(string \<times> string) list"

record overwrite =
  ov_id :: int
  ov_allow :: int
  ov_deny :: int

text \<open>
  An element of \<^verbatim>\<open>MemberList.groups\<close>. The field is annotated \<^verbatim>\<open>List[GroupInfo]\<close>, but
  \<^verbatim>\<open>set_groups\<close> stores the bare ids of the role groups in front of the two
  \<^verbatim>\<open>GroupInfo\<close> objects for \<^verbatim>\<open>'online'\<close> and \<^verbatim>\<open>'offline'\<close>, so an element is either of
  the two.
\<close>

datatype group_entry = Bare GroupID | Info GroupInfo

text \<open>
  The dataclass \<^verbatim>\<open>MemberList\<close>: four fields, each \<^verbatim>\<open>None\<close> until it is assigned.
  Dictionaries are association lists in insertion order with pairwise distinct keys.
\<close>

record MemberList =
  groups :: "group_entry list option"
  group_info :: "(GroupID \<times> GroupInfo) list option"
  data :: "(GroupID \<times> Presence list) list option"
  overwrites :: "(int \<times> overwrite) list option"

datatype item = GroupItem GroupID nat | MemberItem Presence

text \<open>
  \<^verbatim>\<open>Operation\<close>: the tag \<^verbatim>\<open>list_op\<close> with the parameters that \<^verbatim>\<open>to_dict\<close> copies for that
  tag, so that \<^verbatim>\<open>to_dict\<close> is the identity on this type.
\<close>

datatype Operation =
    SYNC "int \<times> int" "item list"
  | INSERT nat item
  | DELETE nat
  | UPDATE nat item
  | INVALIDATE "int \<times> int"

datatype list_id = Everyone | Channel int

record payload =
  pl_id :: list_id
  pl_guild_id :: int
  pl_groups :: "(nat \<times> GroupID) list"
  pl_ops :: "Operation list"

text \<open>
  A \<^verbatim>\<open>GuildMemberList\<close>. The attribute \<^verbatim>\<open>list\<close> is \<open>list'\<close> here. \<open>state\<close> is the
  \<^verbatim>\<open>defaultdict(set)\<close> from session id to the set of recorded \<^verbatim>\<open>(start, end)\<close> pairs; a key
  exists only once something was recorded under it.
\<close>

record GuildMemberList =
  guild_id :: int
  channel_id :: int
  list' :: MemberList
  state :: "(string \<times> (int \<times> int) set) list"

record role_row =
  r_id :: int
  r_name :: string
  r_hoist :: bool
  r_position :: int
  r_permissions :: Permissions

record member =
  m_user_id :: int
  m_nick :: "string option"

text \<open>
  The collaborators (\<^verbatim>\<open>Storage\<close>, \<^verbatim>\<open>PresenceManager\<close>, \<^verbatim>\<open>StateManager\<close> and the functions of
  \<^verbatim>\<open>litecord.permissions\<close>), whose sources are not included: each is a parameter. A call
  that raises returns \<open>Inl\<close>. \<open>fetch_roles\<close> is the query of \<^verbatim>\<open>get_roles\<close> for the rows of
  the table of roles; \<open>fetch_raw\<close> tells whether the state manager knows the session
  (\<^verbatim>\<open>KeyError\<close> otherwise). Handing a payload to the connection of a session
  (\<^verbatim>\<open>state.ws.dispatch\<close>) is taken to return.
\<close>

record env =
  get_member_ids :: "int \<Rightarrow> error + int list"
  guild_presences :: "int list \<Rightarrow> int \<Rightarrow> error + Presence list"
  chan_overwrites :: "int \<Rightarrow> error + overwrite list"
  fetch_roles :: "int \<Rightarrow> error + role_row list"
  get_member_data :: "int \<Rightarrow> error + member list"
  get_permissions :: "int \<Rightarrow> int \<Rightarrow> error + Permissions"
  role_permissions :: "int \<Rightarrow> int \<Rightarrow> int \<Rightarrow> error + Permissions"
  overwrite_find_mix :: "Permissions \<Rightarrow> (int \<times> overwrite) list \<Rightarrow> GroupID \<Rightarrow> Permissions"
  read_messages :: "Permissions \<Rightarrow> bool"
  guild_from_channel :: "int \<Rightarrow> error + int option"
  fetch_raw :: "string \<Rightarrow> bool"


section \<open>Dictionaries and truthiness\<close>

text \<open>A dictionary comprehension: a later pair with the same key replaces the value.\<close>

definition dict_of :: "('k \<times> 'v) list \<Rightarrow> ('k \<times> 'v) list" where
  "dict_of kvs = foldl (\<lambda>d (k, v). AList.update k v d) [] kvs"

text \<open>\<^verbatim>\<open>d.pop(k)\<close>: the value and the dictionary without the key, or \<^verbatim>\<open>KeyError\<close>.\<close>

definition dict_pop :: "('k \<times> 'v) list \<Rightarrow> 'k \<Rightarrow> error + ('v \<times> ('k \<times> 'v) list)" where
  "dict_pop d k =
     (case map_of d k of
        None \<Rightarrow> Inl KeyError
      | Some v \<Rightarrow> Inr (v, AList.delete k d))"

text \<open>\<^verbatim>\<open>nick or uname\<close>: \<^verbatim>\<open>None\<close> and the empty string are falsy.\<close>

definition py_or :: "string option \<Rightarrow> string \<Rightarrow> string" where
  "py_or nick uname = (case nick of None \<Rightarrow> uname | Some n \<Rightarrow> if n = [] then uname else n)"

text \<open>
  \<^verbatim>\<open>xs[start:end]\<close> for integers: a negative bound counts from the end, and both bounds are
  clamped to the list.
\<close>

definition py_bound :: "int \<Rightarrow> int \<Rightarrow> nat" where
  "py_bound n i = (if i < 0 then nat (max 0 (i + n)) else nat (min i n))"

definition py_slice :: "'a list \<Rightarrow> int \<Rightarrow> int \<Rightarrow> 'a list" where
  "py_slice xs start end' =
     (let n = int (length xs); lo = py_bound n start; hi = py_bound n end'
      in take (hi - lo) (drop lo xs))"

text \<open>
  Modelled from the spec: \<^verbatim>\<open>litecord.utils.index_by_func\<close> is imported by the module and is
  defined in a module whose source is not included. \<^verbatim>\<open>pres_update\<close> uses it to locate a member, and tests
  its result with \<^verbatim>\<open>not\<close>: it is the index of the first element the function accepts, and
  \<^verbatim>\<open>None\<close> when there is none.
\<close>

fun index_by_func :: "('a \<Rightarrow> bool) \<Rightarrow> 'a list \<Rightarrow> nat option" where
  "index_by_func f [] = None"
| "index_by_func f (x # xs) =
     (if f x then Some 0 else map_option Suc (index_by_func f xs))"

text \<open>\<^verbatim>\<open>not idx\<close> for an optional index: true for \<^verbatim>\<open>None\<close> and for \<^verbatim>\<open>0\<close>.\<close>

definition py_not :: "nat option \<Rightarrow> bool" where
  "py_not idx = (case idx of None \<Rightarrow> True | Some i \<Rightarrow> i = 0)"

section \<open>\<^verbatim>\<open>MemberList\<close>\<close>

definition empty_list :: MemberList where
  "empty_list = \<lparr>groups = None, group_info = None, data = None, overwrites = None\<rparr>"

text \<open>\<^verbatim>\<open>MemberList.__bool__\<close>: every field is assigned.\<close>

definition MemberList_bool :: "MemberList \<Rightarrow> bool" where
  "MemberList_bool l \<longleftrightarrow>
     groups l \<noteq> None \<and> group_info l \<noteq> None \<and> data l \<noteq> None \<and> overwrites l \<noteq> None"

text \<open>
  \<^verbatim>\<open>MemberList.__iter__\<close>, run to its end: \<^verbatim>\<open>group.gid\<close> raises \<^verbatim>\<open>AttributeError\<close> on a bare
  id, \<^verbatim>\<open>self.data[...]\<close> raises \<^verbatim>\<open>TypeError\<close> when \<^verbatim>\<open>data\<close> is \<^verbatim>\<open>None\<close> and \<^verbatim>\<open>KeyError\<close> when
  the group has no bucket.
\<close>

fun iter_groups ::
  "(GroupID \<times> Presence list) list option \<Rightarrow> group_entry list \<Rightarrow> error + (GroupInfo \<times> Presence list) list"
where
  "iter_groups d [] = Inr []"
| "iter_groups d (Bare i # gs) = Inl AttributeError"
| "iter_groups d (Info g # gs) =
     (case d of
        None \<Rightarrow> Inl TypeError
      | Some dd \<Rightarrow>
          (case map_of dd (gid g) of
             None \<Rightarrow> Inl KeyError
           | Some ps \<Rightarrow>
               (case iter_groups d gs of
                  Inl e \<Rightarrow> Inl e
                | Inr rest \<Rightarrow> Inr ((g, ps) # rest))))"

definition MemberList_iter :: "MemberList \<Rightarrow> error + (GroupInfo \<times> Presence list) list" where
  "MemberList_iter l =
     (case groups l of
        None \<Rightarrow> Inr []
      | Some gs \<Rightarrow> iter_groups (data l) gs)"

section \<open>\<^verbatim>\<open>GuildMemberList\<close>: building the list\<close>

text \<open>
  A method that can raise returns the error or its result together with the object as the
  call leaves it: what was assigned before an exception stays assigned.
\<close>

definition list_id_of :: "GuildMemberList \<Rightarrow> list_id" where
  "list_id_of st = (if channel_id st = guild_id st then Everyone else Channel (channel_id st))"

definition set_empty_list :: "GuildMemberList \<Rightarrow> GuildMemberList" where
  "set_empty_list st = st\<lparr>list' := empty_list\<rparr>"

definition fetch_overwrites :: "env \<Rightarrow> GuildMemberList \<Rightarrow> (error + unit) \<times> GuildMemberList" where
  "fetch_overwrites en st =
     (case chan_overwrites en (channel_id st) of
        Inl e \<Rightarrow> (Inl e, st)
      | Inr ovs \<Rightarrow>
          (Inr (), st\<lparr>list' := (list' st)\<lparr>overwrites :=
             Some (dict_of (map (\<lambda>ov. (ov_id ov, ov)) ovs))\<rparr>\<rparr>))"

definition to_simple_group :: "string \<Rightarrow> GroupID" where
  "to_simple_group status = (if status = ''offline'' then Name ''offline'' else Name ''online'')"

text \<open>
  The generator of \<^verbatim>\<open>_calc_member_group\<close>: the first group whose id is among the roles.
  \<^verbatim>\<open>g.gid\<close> on a bare id raises \<^verbatim>\<open>AttributeError\<close>, which the \<^verbatim>\<open>except StopIteration\<close> does
  not catch.
\<close>

fun first_group :: "group_entry list \<Rightarrow> int list \<Rightarrow> error + GroupID option" where
  "first_group [] rs = Inr None"
| "first_group (Bare i # gs) rs = Inl AttributeError"
| "first_group (Info g # gs) rs =
     (if gid g \<in> set (map RoleID rs) then Inr (Some (gid g)) else first_group gs rs)"

definition calc_member_group :: "GuildMemberList \<Rightarrow> int list \<Rightarrow> string \<Rightarrow> error + GroupID" where
  "calc_member_group st rs status =
     (case groups (list' st) of
        None \<Rightarrow> Inl TypeError
      | Some gs \<Rightarrow>
          (case first_group gs rs of
             Inl e \<Rightarrow> Inl e
           | Inr (Some g) \<Rightarrow> Inr g
           | Inr None \<Rightarrow> Inr (to_simple_group status)))"

text \<open>
  \<^verbatim>\<open>_can_read_chan\<close> replaces the permissions of the group by the ones mixed with the
  channel's overwrites and answers whether they grant reading.
\<close>

definition mix_group :: "env \<Rightarrow> MemberList \<Rightarrow> GroupInfo \<Rightarrow> GroupInfo" where
  "mix_group en l g =
     g\<lparr>permissions := overwrite_find_mix en (permissions g)
          (case overwrites l of None \<Rightarrow> [] | Some ovs \<Rightarrow> ovs) (gid g)\<rparr>"

definition hoisted_groups :: "role_row list \<Rightarrow> GroupInfo list" where
  "hoisted_groups roledata =
     map (\<lambda>row. \<lparr>gid = RoleID (r_id row), name = r_name row,
                  position = r_position row, permissions = r_permissions row\<rparr>)
       (filter r_hoist roledata)"

definition get_roles :: "env \<Rightarrow> GuildMemberList \<Rightarrow> (error + GroupInfo list) \<times> GuildMemberList" where
  "get_roles en st =
     (case fetch_roles en (guild_id st) of
        Inl e \<Rightarrow> (Inl e, st)
      | Inr roledata \<Rightarrow>
          (let hoisted = sort_key position (hoisted_groups roledata)
           in case fetch_overwrites en st of
                (Inl e, st') \<Rightarrow> (Inl e, st')
              | (Inr u, st') \<Rightarrow>
                  (Inr (filter (\<lambda>g. read_messages en (permissions g))
                          (map (mix_group en (list' st')) hoisted)), st')))"

definition online_group :: GroupInfo where
  "online_group = \<lparr>gid = Name ''online'', name = ''online'', position = - 1, permissions = - 1\<rparr>"

definition offline_group :: GroupInfo where
  "offline_group = \<lparr>gid = Name ''offline'', name = ''offline'', position = - 1, permissions = - 1\<rparr>"

text \<open>
  \<^verbatim>\<open>set_groups\<close>. Its first assignment to \<^verbatim>\<open>self.list.groups\<close> is overwritten by the second
  one at once; the second one puts \<^verbatim>\<open>role_ids\<close>, not \<^verbatim>\<open>role_groups\<close>, in front.
\<close>

definition set_groups :: "env \<Rightarrow> GuildMemberList \<Rightarrow> (error + unit) \<times> GuildMemberList" where
  "set_groups en st =
     (case get_roles en st of
        (Inl e, st') \<Rightarrow> (Inl e, st')
      | (Inr role_groups, st') \<Rightarrow>
          (let role_ids = map gid role_groups
           in (Inr (), st'\<lparr>list' := (list' st')\<lparr>
                 groups := Some (map Bare role_ids @ [Info online_group, Info offline_group]),
                 group_info := Some (dict_of (map (\<lambda>g. (gid g, g)) role_groups))\<rparr>\<rparr>)))"

text \<open>\<^verbatim>\<open>self.list.data[group_id].append(presence)\<close>\<close>

definition data_append :: "MemberList \<Rightarrow> GroupID \<Rightarrow> Presence \<Rightarrow> error + MemberList" where
  "data_append l g p =
     (case data l of
        None \<Rightarrow> Inl TypeError
      | Some d \<Rightarrow>
          (case map_of d g of
             None \<Rightarrow> Inl KeyError
           | Some ps \<Rightarrow> Inr (l\<lparr>data := Some (AList.update g (ps @ [p]) d)\<rparr>)))"

fun pass_1 :: "env \<Rightarrow> GuildMemberList \<Rightarrow> Presence list \<Rightarrow> (error + unit) \<times> GuildMemberList" where
  "pass_1 en st [] = (Inr (), st)"
| "pass_1 en st (presence # rest) =
     (case get_permissions en (p_user_id presence) (channel_id st) of
        Inl e \<Rightarrow> (Inl e, st)
      | Inr member_perms \<Rightarrow>
          if \<not> read_messages en member_perms then pass_1 en st rest
          else
            (case (if p_status presence = ''offline'' then Inr (Name ''offline'')
                   else calc_member_group st (p_roles presence) (p_status presence)) of
               Inl e \<Rightarrow> (Inl e, st)
             | Inr group_id \<Rightarrow>
                 (case data_append (list' st) group_id presence of
                    Inl e \<Rightarrow> (Inl e, st)
                  | Inr l \<Rightarrow> pass_1 en (st\<lparr>list' := l\<rparr>) rest)))"

text \<open>
  \<^verbatim>\<open>member_nicks\<close> is a dictionary comprehension over the members (the last entry of a user
  wins); \<^verbatim>\<open>display_name\<close> is the sort key of \<^verbatim>\<open>_sort_groups\<close>.
\<close>

definition member_nicks :: "member list \<Rightarrow> int \<Rightarrow> string option option" where
  "member_nicks members = map_of (rev (map (\<lambda>m. (m_user_id m, m_nick m)) members))"

definition display_name :: "(int \<Rightarrow> string option option) \<Rightarrow> Presence \<Rightarrow> string" where
  "display_name nicks presence =
     py_or (case nicks (p_user_id presence) of None \<Rightarrow> None | Some nick \<Rightarrow> nick)
       (p_username presence)"

definition sort_groups :: "env \<Rightarrow> GuildMemberList \<Rightarrow> (error + unit) \<times> GuildMemberList" where
  "sort_groups en st =
     (case get_member_data en (guild_id st) of
        Inl e \<Rightarrow> (Inl e, st)
      | Inr members \<Rightarrow>
          (case data (list' st) of
             None \<Rightarrow> (Inl AttributeError, st)
           | Some d \<Rightarrow>
               (Inr (), st\<lparr>list' := (list' st)\<lparr>data :=
                  Some (map (\<lambda>(g, ps). (g, sort_key (display_name (member_nicks members)) ps)) d)\<rparr>\<rparr>)))"

text \<open>\<^verbatim>\<open>{group.gid: [] for group in self.list.groups}\<close>\<close>

fun group_gids :: "group_entry list \<Rightarrow> error + GroupID list" where
  "group_gids [] = Inr []"
| "group_gids (Bare i # gs) = Inl AttributeError"
| "group_gids (Info g # gs) =
     (case group_gids gs of Inl e \<Rightarrow> Inl e | Inr ids \<Rightarrow> Inr (gid g # ids))"

definition init_data :: "GuildMemberList \<Rightarrow> (error + unit) \<times> GuildMemberList" where
  "init_data st =
     (case groups (list' st) of
        None \<Rightarrow> (Inl TypeError, st)
      | Some gs \<Rightarrow>
          (case group_gids gs of
             Inl e \<Rightarrow> (Inl e, st)
           | Inr ids \<Rightarrow>
               (Inr (), st\<lparr>list' := (list' st)\<lparr>data := Some (dict_of (map (\<lambda>i. (i, [])) ids))\<rparr>\<rparr>)))"

definition init_member_list :: "env \<Rightarrow> GuildMemberList \<Rightarrow> (error + unit) \<times> GuildMemberList" where
  "init_member_list en st =
     (case get_member_ids en (guild_id st) of
        Inl e \<Rightarrow> (Inl e, st)
      | Inr member_ids \<Rightarrow>
          (case guild_presences en member_ids (guild_id st) of
             Inl e \<Rightarrow> (Inl e, st)
           | Inr presences \<Rightarrow>
               (case set_groups en st of
                  (Inl e, st1) \<Rightarrow> (Inl e, st1)
                | (Inr u, st1) \<Rightarrow>
                    (case init_data st1 of
                       (Inl e, st2) \<Rightarrow> (Inl e, st2)
                     | (Inr u, st2) \<Rightarrow>
                         (case pass_1 en st2 presences of
                            (Inl e, st3) \<Rightarrow> (Inl e, st3)
                          | (Inr u, st3) \<Rightarrow> sort_groups en st3)))))"

definition init_check :: "env \<Rightarrow> GuildMemberList \<Rightarrow> (error + unit) \<times> GuildMemberList" where
  "init_check en st = (if \<not> MemberList_bool (list' st) then init_member_list en st else (Inr (), st))"

text \<open>The property \<^verbatim>\<open>items\<close>: one header per group, followed by the members of its bucket.\<close>

definition items :: "GuildMemberList \<Rightarrow> error + item list" where
  "items st =
     (if \<not> MemberList_bool (list' st) then Inr []
      else
        (case MemberList_iter (list' st) of
           Inl e \<Rightarrow> Inl e
         | Inr gps \<Rightarrow>
             Inr (concat (map (\<lambda>(g, ps). GroupItem (gid g) (length ps) # map MemberItem ps) gps))))"


section \<open>\<^verbatim>\<open>GuildMemberList\<close>: subscriptions and dispatch\<close>

definition sub :: "env \<Rightarrow> GuildMemberList \<Rightarrow> string \<Rightarrow> (error + unit) \<times> GuildMemberList" where
  "sub en st session_id = init_check en st"

text \<open>
  \<^verbatim>\<open>unsub\<close>: the \<^verbatim>\<open>KeyError\<close> of \<^verbatim>\<open>pop\<close> is caught; with no key left in \<^verbatim>\<open>self.state\<close> the
  list is set empty.
\<close>

definition unsub :: "GuildMemberList \<Rightarrow> string \<Rightarrow> (error + unit) \<times> GuildMemberList" where
  "unsub st session_id =
     (let st1 = (case dict_pop (state st) session_id of
                   Inl e \<Rightarrow> st
                 | Inr (v, d) \<Rightarrow> st\<lparr>state := d\<rparr>)
      in if state st1 = [] then (Inr (), set_empty_list st1) else (Inr (), st1))"

text \<open>
  \<^verbatim>\<open>get_state\<close>: the session's state (here its id), or \<^verbatim>\<open>None\<close> after unsubscribing a
  session that the state manager does not know.
\<close>

definition get_state :: "env \<Rightarrow> GuildMemberList \<Rightarrow> string \<Rightarrow> string option \<times> GuildMemberList" where
  "get_state en st session_id =
     (if fetch_raw en session_id then (Some session_id, st)
      else (None, snd (unsub st session_id)))"

definition make_payload :: "GuildMemberList \<Rightarrow> Operation list \<Rightarrow> error + payload" where
  "make_payload st operations =
     (case MemberList_iter (list' st) of
        Inl e \<Rightarrow> Inl e
      | Inr gps \<Rightarrow>
          Inr \<lparr>pl_id = list_id_of st, pl_guild_id = guild_id st,
               pl_groups = map (\<lambda>(g, ps). (length ps, gid g)) gps,
               pl_ops = operations\<rparr>)"

text \<open>
  The loop of \<^verbatim>\<open>_dispatch_sess\<close> over \<^verbatim>\<open>session_ids\<close>. The result is the error or the list
  \<^verbatim>\<open>dispatched\<close>, the messages handed to \<^verbatim>\<open>ws.dispatch\<close> (session and payload, in order) and
  the object. \<open>view\<close> says that \<^verbatim>\<open>session_ids\<close> is the lazy \<^verbatim>\<open>filter\<close> over
  \<^verbatim>\<open>self.state.keys()\<close> that \<^verbatim>\<open>pres_update\<close> passes: then \<^verbatim>\<open>get_state\<close> unsubscribing a
  session removes a key of the dictionary being iterated, and fetching the next session
  raises \<^verbatim>\<open>RuntimeError\<close>. \<^verbatim>\<open>shard_query\<close> passes a list.
\<close>

fun dispatch_loop ::
  "env \<Rightarrow> payload \<Rightarrow> bool \<Rightarrow> GuildMemberList \<Rightarrow> string list \<Rightarrow>
     (error + string list) \<times> (string \<times> payload) list \<times> GuildMemberList"
where
  "dispatch_loop en pl view st [] = (Inr [], [], st)"
| "dispatch_loop en pl view st (sid # rest) =
     (case get_state en st sid of
        (None, st') \<Rightarrow>
          if view then (Inl RuntimeError, [], st') else dispatch_loop en pl view st' rest
      | (Some s, st') \<Rightarrow>
          (case dispatch_loop en pl view st' rest of
             (Inl e, msgs, st'') \<Rightarrow> (Inl e, (s, pl) # msgs, st'')
           | (Inr dispatched, msgs, st'') \<Rightarrow> (Inr (s # dispatched), (s, pl) # msgs, st'')))"

definition dispatch_sess ::
  "env \<Rightarrow> GuildMemberList \<Rightarrow> bool \<Rightarrow> string list \<Rightarrow> Operation list \<Rightarrow>
     (error + string list) \<times> (string \<times> payload) list \<times> GuildMemberList"
where
  "dispatch_sess en st view session_ids operations =
     (case make_payload st operations of
        Inl e \<Rightarrow> (Inl e, [], st)
      | Inr pl \<Rightarrow> dispatch_loop en pl view st session_ids)"

text \<open>\<^verbatim>\<open>self.state[session_id].add((start, end))\<close> on the \<^verbatim>\<open>defaultdict(set)\<close>\<close>

definition state_add ::
  "(string \<times> (int \<times> int) set) list \<Rightarrow> string \<Rightarrow> int \<times> int \<Rightarrow> (string \<times> (int \<times> int) set) list"
where
  "state_add d session_id r =
     (case map_of d session_id of
        None \<Rightarrow> d @ [(session_id, {r})]
      | Some rs \<Rightarrow> AList.update session_id (insert r rs) d)"

text \<open>The loop of \<^verbatim>\<open>shard_query\<close> over the requested ranges.\<close>

fun query_ranges ::
  "GuildMemberList \<Rightarrow> string \<Rightarrow> (int \<times> int) list \<Rightarrow> (error + Operation list) \<times> GuildMemberList"
where
  "query_ranges st session_id [] = (Inr [], st)"
| "query_ranges st session_id ((start, end') # rest) =
     (let itemcount = end' - start
      in if itemcount < 0 then query_ranges st session_id rest
         else
           (let st' = st\<lparr>state := state_add (state st) session_id (start, end')\<rparr>
            in case items st' of
                 Inl e \<Rightarrow> (Inl e, st')
               | Inr its \<Rightarrow>
                   (case query_ranges st' session_id rest of
                      (Inl e, st'') \<Rightarrow> (Inl e, st'')
                    | (Inr ops, st'') \<Rightarrow>
                        (Inr (SYNC (start, end') (py_slice its start end') # ops), st''))))"

text \<open>
  \<^verbatim>\<open>shard_query\<close> either hands the call to the \<^verbatim>\<open>GuildMemberList\<close> that
  \<^verbatim>\<open>self.main.get_gml(self.guild_id)\<close> returns (\<open>Redirect\<close>: the registry below follows
  it), or answers itself.
\<close>

datatype query_result = Redirect int | Answered "string list" "(string \<times> payload) list"

definition shard_query ::
  "env \<Rightarrow> GuildMemberList \<Rightarrow> string \<Rightarrow> (int \<times> int) list \<Rightarrow> (error + query_result) \<times> GuildMemberList"
where
  "shard_query en st session_id ranges =
     (case role_permissions en (guild_id st) (guild_id st) (channel_id st) of
        Inl e \<Rightarrow> (Inl e, st)
      | Inr everyone_perms \<Rightarrow>
          if read_messages en everyone_perms \<and> list_id_of st \<noteq> Everyone
          then (Inr (Redirect (guild_id st)), st)
          else
            (case init_check en st of
               (Inl e, st1) \<Rightarrow> (Inl e, st1)
             | (Inr u, st1) \<Rightarrow>
                 (case query_ranges st1 session_id ranges of
                    (Inl e, st2) \<Rightarrow> (Inl e, st2)
                  | (Inr ops, st2) \<Rightarrow>
                      (case dispatch_sess en st2 False [session_id] ops of
                         (Inl e, msgs, st3) \<Rightarrow> (Inl e, st3)
                       | (Inr dispatched, msgs, st3) \<Rightarrow> (Inr (Answered dispatched msgs), st3)))))"

text \<open>\<^verbatim>\<open>presences[p_idx].update(partial_presence)\<close>\<close>

definition presence_update :: "Presence \<Rightarrow> PartialPresence \<Rightarrow> Presence" where
  "presence_update p pp =
     \<lparr>p_user_id = (case pp_user pp of None \<Rightarrow> p_user_id p | Some (i, n) \<Rightarrow> i),
      p_username = (case pp_user pp of None \<Rightarrow> p_username p | Some (i, n) \<Rightarrow> n),
      p_status = (case pp_status pp of None \<Rightarrow> p_status p | Some s \<Rightarrow> s),
      p_roles = (case pp_roles pp of None \<Rightarrow> p_roles p | Some rs \<Rightarrow> rs),
      p_other = foldl (\<lambda>d (k, v). AList.update k v d) (p_other p) (pp_other pp)\<rparr>"

text \<open>
  The first loop of \<^verbatim>\<open>pres_update\<close>: in every group, the index of the user in the bucket;
  when \<^verbatim>\<open>not p_idx\<close> holds the bucket is left alone, otherwise the record at that index is
  updated in place.
\<close>

fun merge_groups ::
  "MemberList \<Rightarrow> group_entry list \<Rightarrow> int \<Rightarrow> PartialPresence \<Rightarrow> (error + unit) \<times> MemberList"
where
  "merge_groups l [] user_id pp = (Inr (), l)"
| "merge_groups l (Bare i # gs) user_id pp = (Inl AttributeError, l)"
| "merge_groups l (Info g # gs) user_id pp =
     (case data l of
        None \<Rightarrow> (Inl TypeError, l)
      | Some d \<Rightarrow>
          (case map_of d (gid g) of
             None \<Rightarrow> (Inl KeyError, l)
           | Some presences \<Rightarrow>
               (let p_idx = index_by_func (\<lambda>p. p_user_id p = user_id) presences
                in if py_not p_idx then merge_groups l gs user_id pp
                   else
                     (case p_idx of
                        None \<Rightarrow> merge_groups l gs user_id pp
                      | Some i \<Rightarrow>
                          merge_groups
                            (l\<lparr>data := Some (AList.update (gid g)
                                  (presences[i := presence_update (presences ! i) pp]) d)\<rparr>)
                            gs user_id pp))))"

definition get_id :: "item \<Rightarrow> int option" where
  "get_id it = (case it of GroupItem g n \<Rightarrow> None | MemberItem p \<Rightarrow> Some (p_user_id p))"

text \<open>\<^verbatim>\<open>_is_in\<close>: some recorded pair has \<^verbatim>\<open>range_start <= item_index <= range_end\<close>.\<close>

definition is_in :: "GuildMemberList \<Rightarrow> nat \<Rightarrow> string \<Rightarrow> bool" where
  "is_in st item_index sess_id =
     (case map_of (state st) sess_id of
        None \<Rightarrow> False
      | Some ranges \<Rightarrow>
          (\<exists>(range_start, range_end) \<in> ranges.
             range_start \<le> int item_index \<and> int item_index \<le> range_end))"

definition pres_update ::
  "env \<Rightarrow> GuildMemberList \<Rightarrow> int \<Rightarrow> PartialPresence \<Rightarrow>
     (error + string list) \<times> (string \<times> payload) list \<times> GuildMemberList"
where
  "pres_update en st user_id partial_presence =
     (case init_check en st of
        (Inl e, st1) \<Rightarrow> (Inl e, [], st1)
      | (Inr u, st1) \<Rightarrow>
          (case merge_groups (list' st1)
                  (case groups (list' st1) of None \<Rightarrow> [] | Some gs \<Rightarrow> gs)
                  user_id partial_presence of
             (Inl e, l) \<Rightarrow> (Inl e, [], st1\<lparr>list' := l\<rparr>)
           | (Inr u, l) \<Rightarrow>
               (let st2 = st1\<lparr>list' := l\<rparr>
                in case items st2 of
                     Inl e \<Rightarrow> (Inl e, [], st2)
                   | Inr its \<Rightarrow>
                       (let item_index = index_by_func (\<lambda>p. get_id p = Some user_id) its
                        in if py_not item_index then (Inr [], [], st2)
                           else
                             (case item_index of
                                None \<Rightarrow> (Inr [], [], st2)
                              | Some i \<Rightarrow>
                                  dispatch_sess en st2 True
                                    (filter (is_in st2 i) (map fst (state st2)))
                                    [UPDATE i (its ! i)])))))"

text \<open>
  \<^verbatim>\<open>dispatch\<close>: after the check that the list is initialised the method has no further
  statement; it hands nothing to any session and changes nothing.
\<close>

definition dispatch ::
  "GuildMemberList \<Rightarrow> string \<Rightarrow> 'a \<Rightarrow> (string \<times> payload) list \<times> GuildMemberList"
where
  "dispatch st event dat = (if \<not> MemberList_bool (list' st) then ([], st) else ([], st))"


section \<open>\<^verbatim>\<open>LazyGuildDispatcher\<close>\<close>

text \<open>
  The registry: \<open>lg_state\<close> maps a channel id to its \<^verbatim>\<open>GuildMemberList\<close>, \<open>guild_map\<close> is
  the \<^verbatim>\<open>defaultdict(list)\<close> from a guild id to the channel ids that have one. A
  \<^verbatim>\<open>GuildMemberList\<close> is only ever reached through \<open>lg_state\<close>, so the object is named by
  its channel id.
\<close>

record LazyGuildDispatcher =
  lg_state :: "(int \<times> GuildMemberList) list"
  guild_map :: "(int \<times> int list) list"

definition new_gml :: "int \<Rightarrow> int \<Rightarrow> GuildMemberList" where
  "new_gml g c = \<lparr>guild_id = g, channel_id = c, list' = empty_list, state = []\<rparr>"

definition get_gml ::
  "env \<Rightarrow> LazyGuildDispatcher \<Rightarrow> int \<Rightarrow> (error + GuildMemberList) \<times> LazyGuildDispatcher"
where
  "get_gml en lg chan =
     (case map_of (lg_state lg) chan of
        Some gml \<Rightarrow> (Inr gml, lg)
      | None \<Rightarrow>
          (case guild_from_channel en chan of
             Inl e \<Rightarrow> (Inl e, lg)
           | Inr found \<Rightarrow>
               (let g = (case found of None \<Rightarrow> chan | Some i \<Rightarrow> if i = 0 then chan else i);
                    gml = new_gml g chan
                in (Inr gml,
                    lg\<lparr>lg_state := AList.update chan gml (lg_state lg),
                       guild_map := AList.update g
                         ((case map_of (guild_map lg) g of None \<Rightarrow> [] | Some cs \<Rightarrow> cs) @ [chan])
                         (guild_map lg)\<rparr>))))"


text \<open>
  \<^verbatim>\<open>shard_query\<close> on the list of a channel, following the hand-over to the list of the
  guild. Each hand-over is one more nested call; \<open>None\<close> says that the given depth was
  used up.
\<close>

fun gml_shard_query ::
  "nat \<Rightarrow> env \<Rightarrow> LazyGuildDispatcher \<Rightarrow> int \<Rightarrow> string \<Rightarrow> (int \<times> int) list \<Rightarrow>
     (error + string list \<times> (string \<times> payload) list) option \<times> LazyGuildDispatcher"
where
  "gml_shard_query 0 en lg chan session_id ranges = (None, lg)"
| "gml_shard_query (Suc n) en lg chan session_id ranges =
     (case get_gml en lg chan of
        (Inl e, lg1) \<Rightarrow> (Some (Inl e), lg1)
      | (Inr gml, lg1) \<Rightarrow>
          (case shard_query en gml session_id ranges of
             (Inl e, gml') \<Rightarrow>
               (Some (Inl e), lg1\<lparr>lg_state := AList.update chan gml' (lg_state lg1)\<rparr>)
           | (Inr (Redirect g), gml') \<Rightarrow> gml_shard_query n en lg1 g session_id ranges
           | (Inr (Answered dispatched msgs), gml') \<Rightarrow>
               (Some (Inr (dispatched, msgs)),
                lg1\<lparr>lg_state := AList.update chan gml' (lg_state lg1)\<rparr>)))"

section \<open>Auxiliary notions and an example guild\<close>

text \<open>The permission resolver succeeds for the member of a presence and grants reading.\<close>

definition may_read :: "env \<Rightarrow> int \<Rightarrow> Presence \<Rightarrow> bool" where
  "may_read en c p \<longleftrightarrow>
     (\<exists>perms. get_permissions en (p_user_id p) c = Inr perms \<and> read_messages en perms)"

text \<open>
  The first of the four fetches at the start of a build that fails: member ids, presences,
  roles, overwrites, in the order in which \<^verbatim>\<open>_init_member_list\<close> reaches them.
\<close>

definition fetch_error :: "env \<Rightarrow> GuildMemberList \<Rightarrow> error option" where
  "fetch_error en st =
     (case get_member_ids en (guild_id st) of
        Inl e \<Rightarrow> Some e
      | Inr ids \<Rightarrow>
          (case guild_presences en ids (guild_id st) of
             Inl e \<Rightarrow> Some e
           | Inr ps \<Rightarrow>
               (case fetch_roles en (guild_id st) of
                  Inl e \<Rightarrow> Some e
                | Inr roledata \<Rightarrow>
                    (case chan_overwrites en (channel_id st) of
                       Inl e \<Rightarrow> Some e
                     | Inr ovs \<Rightarrow> None))))"

text \<open>
  The error of the first presence for whose member the permission resolver fails, in the
  order in which \<^verbatim>\<open>_pass_1\<close> asks.
\<close>

fun perm_error :: "env \<Rightarrow> int \<Rightarrow> Presence list \<Rightarrow> error option" where
  "perm_error en c [] = None"
| "perm_error en c (p # ps) =
     (case get_permissions en (p_user_id p) c of
        Inl e \<Rightarrow> Some e
      | Inr perms \<Rightarrow> perm_error en c ps)"

text \<open>
  Guild 10 with its default channel 10, a second channel 11 and four members. Dave may not
  read the channels; Bob has the nickname \<open>zed\<close>; Carol is offline. The guild has no
  hoisted role, and the role of everyone may read both channels.
\<close>

definition alice :: Presence where
  "alice = \<lparr>p_user_id = 1, p_username = ''alice'', p_status = ''online'', p_roles = [],
     p_other = []\<rparr>"

definition bob :: Presence where
  "bob = \<lparr>p_user_id = 2, p_username = ''bob'', p_status = ''idle'', p_roles = [],
     p_other = []\<rparr>"

definition carol :: Presence where
  "carol = \<lparr>p_user_id = 3, p_username = ''carol'', p_status = ''offline'', p_roles = [],
     p_other = []\<rparr>"

definition dave :: Presence where
  "dave = \<lparr>p_user_id = 4, p_username = ''dave'', p_status = ''online'', p_roles = [],
     p_other = []\<rparr>"

definition ex_env :: env where
  "ex_env =
     \<lparr>get_member_ids = (\<lambda>g. Inr [1, 2, 3, 4]),
      guild_presences = (\<lambda>ids g. Inr [bob, carol, dave, alice]),
      chan_overwrites = (\<lambda>c. Inr []),
      fetch_roles = (\<lambda>g. Inr []),
      get_member_data = (\<lambda>g. Inr [\<lparr>m_user_id = 2, m_nick = Some ''zed''\<rparr>]),
      get_permissions = (\<lambda>m c. Inr (if m = 4 then 0 else 1024)),
      role_permissions = (\<lambda>g r c. Inr 1024),
      overwrite_find_mix = (\<lambda>p ovs g. p),
      read_messages = (\<lambda>p. 1024 \<le> p mod 2048),
      guild_from_channel = (\<lambda>c. Inr (if c = 11 then Some 10 else None)),
      fetch_raw = (\<lambda>s. True)\<rparr>"

definition ex_gml :: GuildMemberList where
  "ex_gml = new_gml 10 10"

text \<open>The list that a build for the example guild yields.\<close>

definition ex_list :: MemberList where
  "ex_list =
     \<lparr>groups = Some [Info online_group, Info offline_group],
      group_info = Some [],
      data = Some [(Name ''online'', [alice, bob]), (Name ''offline'', [carol])],
      overwrites = Some []\<rparr>"

definition ex_items :: "item list" where
  "ex_items =
     [GroupItem (Name ''online'') 2, MemberItem alice, MemberItem bob,
      GroupItem (Name ''offline'') 1, MemberItem carol]"

text \<open>
  The same guild with roles: three hoisted roles may read the channel, the overwrite of the
  channel takes reading away from the hoisted role 9, and role 6 is not hoisted.
\<close>

definition ex_roles :: "role_row list" where
  "ex_roles =
     [\<lparr>r_id = 7, r_name = ''mods'', r_hoist = True, r_position = 2, r_permissions = 1024\<rparr>,
      \<lparr>r_id = 8, r_name = ''staff'', r_hoist = True, r_position = 1, r_permissions = 1024\<rparr>,
      \<lparr>r_id = 9, r_name = ''muted'', r_hoist = True, r_position = 1, r_permissions = 1024\<rparr>,
      \<lparr>r_id = 5, r_name = ''team'', r_hoist = True, r_position = 1, r_permissions = 1024\<rparr>,
      \<lparr>r_id = 6, r_name = ''plain'', r_hoist = False, r_position = 0, r_permissions = 1024\<rparr>]"

definition ex_env_roles :: env where
  "ex_env_roles = ex_env
     \<lparr>chan_overwrites := (\<lambda>c. Inr [\<lparr>ov_id = 9, ov_allow = 0, ov_deny = 1024\<rparr>]),
      fetch_roles := (\<lambda>g. Inr ex_roles),
      overwrite_find_mix := (\<lambda>p ovs g.
        case g of
          RoleID r \<Rightarrow> (case map_of ovs r of None \<Rightarrow> p | Some ov \<Rightarrow> p - ov_deny ov + ov_allow ov)
        | Name n \<Rightarrow> p)\<rparr>"

text \<open>What \<^verbatim>\<open>set_groups\<close> leaves for the guild with roles.\<close>

definition ex_role_list :: MemberList where
  "ex_role_list =
     \<lparr>groups = Some [Bare (RoleID 8), Bare (RoleID 5), Bare (RoleID 7),
                      Info online_group, Info offline_group],
      group_info = Some
        [(RoleID 8, \<lparr>gid = RoleID 8, name = ''staff'', position = 1, permissions = 1024\<rparr>),
         (RoleID 5, \<lparr>gid = RoleID 5, name = ''team'', position = 1, permissions = 1024\<rparr>),
         (RoleID 7, \<lparr>gid = RoleID 7, name = ''mods'', position = 2, permissions = 1024\<rparr>)],
      data = None,
      overwrites = Some [(9, \<lparr>ov_id = 9, ov_allow = 0, ov_deny = 1024\<rparr>)]\<rparr>"

text \<open>The permission resolver fails for Alice, the last presence of the example guild.\<close>

definition ex_env_perm_fails :: env where
  "ex_env_perm_fails = ex_env
     \<lparr>get_permissions := (\<lambda>m c.
        if m = 1 then Inl (CollaboratorError ''get_permissions'') else Inr (if m = 4 then 0 else 1024))\<rparr>"

definition ex_partial :: MemberList where
  "ex_partial =
     \<lparr>groups = Some [Info online_group, Info offline_group],
      group_info = Some [],
      data = Some [(Name ''online'', [bob]), (Name ''offline'', [carol])],
      overwrites = Some []\<rparr>"

text \<open>The overwrites of the channel cannot be fetched.\<close>

definition ex_env_ov_fails :: env where
  "ex_env_ov_fails = ex_env\<lparr>chan_overwrites := (\<lambda>c. Inl (CollaboratorError ''chan_overwrites''))\<rparr>"

text \<open>A presence update, and the example list with one session subscribed to \<open>[0, 2)\<close>.\<close>

definition ex_dnd :: PartialPresence where
  "ex_dnd = \<lparr>pp_user = None, pp_status = Some ''dnd'', pp_roles = None, pp_other = []\<rparr>"

definition ex_subscribed :: GuildMemberList where
  "ex_subscribed = ex_gml\<lparr>list' := ex_list, state := [(''s1'', {(0, 2)})]\<rparr>"


text \<open>
  The example list after \<^verbatim>\<open>set_groups\<close>; the member data cannot be fetched; and the list
  that the build then leaves, filled but not sorted.
\<close>

definition ex_grouped :: MemberList where
  "ex_grouped =
     \<lparr>groups = Some [Info online_group, Info offline_group],
      group_info = Some [], data = None, overwrites = Some []\<rparr>"

definition ex_env_nick_fails :: env where
  "ex_env_nick_fails = ex_env\<lparr>get_member_data := (\<lambda>g. Inl (CollaboratorError ''get_member_data''))\<rparr>"

definition ex_unsorted :: MemberList where
  "ex_unsorted =
     \<lparr>groups = Some [Info online_group, Info offline_group],
      group_info = Some [],
      data = Some [(Name ''online'', [bob, alice]), (Name ''offline'', [carol])],
      overwrites = Some []\<rparr>"

section \<open>Lemmas about the model\<close>

lemma set_update_subset: "set (AList.update k v al) \<subseteq> insert (k, v) (set al)"
  by (induction al) auto

lemma keys_update: "fst ` set (AList.update k v al) = insert k (fst ` set al)"
  by (induction al) auto

lemma foldl_update_subset:
  "set (foldl (\<lambda>d (k, v). AList.update k v d) acc kvs) \<subseteq> set acc \<union> set kvs"
proof (induction kvs arbitrary: acc)
  case Nil
  then show ?case by simp
next
  case (Cons kv kvs)
  obtain k v where kv: "kv = (k, v)" by (cases kv)
  have "set (foldl (\<lambda>d (k, v). AList.update k v d) (AList.update k v acc) kvs)
          \<subseteq> set (AList.update k v acc) \<union> set kvs"
    by (rule Cons.IH)
  also have "\<dots> \<subseteq> insert (k, v) (set acc) \<union> set kvs"
    using set_update_subset [of k v acc] by blast
  finally show ?case by (auto simp: kv)
qed

lemma foldl_update_keys:
  "fst ` set (foldl (\<lambda>d (k, v). AList.update k v d) acc kvs) = fst ` set acc \<union> fst ` set kvs"
proof (induction kvs arbitrary: acc)
  case Nil
  then show ?case by simp
next
  case (Cons kv kvs)
  obtain k v where kv: "kv = (k, v)" by (cases kv)
  show ?case by (simp add: kv Cons.IH keys_update)
qed

lemma dict_of_subset: "set (dict_of kvs) \<subseteq> set kvs"
  using foldl_update_subset [of "[]" kvs] by (simp add: dict_of_def)

lemma dict_of_keys: "fst ` set (dict_of kvs) = fst ` set kvs"
  using foldl_update_keys [of "[]" kvs] by (simp add: dict_of_def)

lemma map_of_keys: "map_of d k \<noteq> None \<longleftrightarrow> k \<in> fst ` set d"
  by (simp add: map_of_eq_None_iff)

lemma fetch_overwrites_frame:
  "fetch_overwrites en st = (r, st') \<Longrightarrow>
     guild_id st' = guild_id st \<and> channel_id st' = channel_id st \<and> state st' = state st
     \<and> groups (list' st') = groups (list' st) \<and> group_info (list' st') = group_info (list' st)
     \<and> data (list' st') = data (list' st)"
  by (auto simp: fetch_overwrites_def split: sum.splits)

lemma fetch_overwrites_ok:
  "fetch_overwrites en st = (Inr u, st') \<Longrightarrow> overwrites (list' st') \<noteq> None"
  by (auto simp: fetch_overwrites_def split: sum.splits)

lemma get_roles_frame:
  "get_roles en st = (r, st') \<Longrightarrow>
     guild_id st' = guild_id st \<and> channel_id st' = channel_id st \<and> state st' = state st
     \<and> groups (list' st') = groups (list' st) \<and> group_info (list' st') = group_info (list' st)
     \<and> data (list' st') = data (list' st)"
  by (auto simp: get_roles_def Let_def split: sum.splits prod.splits dest: fetch_overwrites_frame)

lemma get_roles_ok:
  "get_roles en st = (Inr gs, st') \<Longrightarrow> overwrites (list' st') \<noteq> None"
  by (auto simp: get_roles_def Let_def split: sum.splits prod.splits dest: fetch_overwrites_ok)

lemma set_groups_frame:
  "set_groups en st = (r, st') \<Longrightarrow>
     guild_id st' = guild_id st \<and> channel_id st' = channel_id st \<and> state st' = state st"
  by (auto simp: set_groups_def Let_def split: sum.splits prod.splits dest: get_roles_frame)

lemma set_groups_ok:
  "set_groups en st = (Inr u, st') \<Longrightarrow>
     overwrites (list' st') \<noteq> None \<and> groups (list' st') \<noteq> None \<and> group_info (list' st') \<noteq> None"
  by (auto simp: set_groups_def Let_def split: sum.splits prod.splits dest: get_roles_ok)


lemma group_gids_Info:
  "group_gids gs = Inr ids \<Longrightarrow> \<forall>ge \<in> set gs. \<exists>g. ge = Info g \<and> gid g \<in> set ids"
proof (induction gs arbitrary: ids)
  case Nil
  then show ?case by simp
next
  case (Cons ge gs)
  then show ?case
    by (cases ge) (auto split: sum.splits)
qed

lemma iter_groups_ok:
  "\<forall>ge \<in> set gs. \<exists>g. ge = Info g \<and> gid g \<in> fst ` set d \<Longrightarrow> \<exists>gps. iter_groups (Some d) gs = Inr gps"
proof (induction gs)
  case Nil
  then show ?case by simp
next
  case (Cons ge gs)
  then obtain g where g: "ge = Info g" "gid g \<in> fst ` set d" by auto
  then obtain ps where ps: "map_of d (gid g) = Some ps"
    using map_of_keys [of d "gid g"] by auto
  from Cons obtain gps where "iter_groups (Some d) gs = Inr gps" by auto
  then show ?case by (simp add: g ps)
qed

lemma init_data_ok:
  assumes "init_data st = (Inr u, st')"
  shows "\<exists>gs d. groups (list' st') = Some gs \<and> data (list' st') = Some d
           \<and> (\<forall>ge \<in> set gs. \<exists>g. ge = Info g \<and> gid g \<in> fst ` set d)
           \<and> (\<forall>(g, ps) \<in> set d. ps = [])"
proof -
  from assms obtain gs ids where gs: "groups (list' st) = Some gs" "group_gids gs = Inr ids"
    and st': "st' = st\<lparr>list' := (list' st)\<lparr>data := Some (dict_of (map (\<lambda>i. (i, [])) ids))\<rparr>\<rparr>"
    by (auto simp: init_data_def split: option.splits sum.splits)
  let ?d = "dict_of (map (\<lambda>i. (i, []::Presence list)) ids)"
  have keys: "fst ` set ?d = set ids"
    by (simp add: dict_of_keys image_image)
  have empty: "\<forall>(g, ps) \<in> set ?d. ps = []"
    using dict_of_subset [of "map (\<lambda>i. (i, []::Presence list)) ids"] by auto
  from group_gids_Info [OF gs(2)] keys
  have "\<forall>ge \<in> set gs. \<exists>g. ge = Info g \<and> gid g \<in> fst ` set ?d" by simp
  with gs empty show ?thesis by (simp add: st')
qed

lemma init_data_frame:
  "init_data st = (r, st') \<Longrightarrow>
     guild_id st' = guild_id st \<and> channel_id st' = channel_id st \<and> state st' = state st
     \<and> groups (list' st') = groups (list' st) \<and> group_info (list' st') = group_info (list' st)
     \<and> overwrites (list' st') = overwrites (list' st)"
  by (auto simp: init_data_def split: option.splits sum.splits)

lemma data_append_frame:
  "data_append l g p = Inr l' \<Longrightarrow>
     groups l' = groups l \<and> group_info l' = group_info l \<and> overwrites l' = overwrites l
     \<and> (\<exists>d ps. data l = Some d \<and> map_of d g = Some ps \<and> data l' = Some (AList.update g (ps @ [p]) d))"
  by (auto simp: data_append_def split: option.splits)

lemma pass_1_frame:
  "pass_1 en st ps = (r, st') \<Longrightarrow>
     guild_id st' = guild_id st \<and> channel_id st' = channel_id st \<and> state st' = state st
     \<and> groups (list' st') = groups (list' st) \<and> group_info (list' st') = group_info (list' st)
     \<and> overwrites (list' st') = overwrites (list' st)"
proof (induction ps arbitrary: st)
  case Nil
  then show ?case by simp
next
  case (Cons p ps)
  show ?case
  proof (cases "get_permissions en (p_user_id p) (channel_id st)")
    case (Inl e)
    with Cons.prems show ?thesis by simp
  next
    case (Inr perms)
    show ?thesis
    proof (cases "read_messages en perms")
      case False
      with Cons Inr show ?thesis by simp
    next
      case True
      let ?g = "if p_status p = ''offline'' then Inr (Name ''offline'')
                else calc_member_group st (p_roles p) (p_status p)"
      show ?thesis
      proof (cases ?g)
        case (Inl e)
        with Cons.prems Inr True show ?thesis by simp
      next
        case g: (Inr group_id)
        show ?thesis
        proof (cases "data_append (list' st) group_id p")
          case (Inl e)
          with Cons.prems Inr True g show ?thesis by simp
        next
          case l: (Inr l)
          with Cons.prems Inr True g have "pass_1 en (st\<lparr>list' := l\<rparr>) ps = (r, st')" by simp
          from Cons.IH [OF this] data_append_frame [OF l] show ?thesis by simp
        qed
      qed
    qed
  qed
qed


lemma pass_1_Cons_cases:
  assumes "pass_1 en st (p # ps) = (r, st')"
  obtains (failed) e where "r = Inl e" "st' = st"
    | (skipped) perms where "get_permissions en (p_user_id p) (channel_id st) = Inr perms"
        "\<not> read_messages en perms" "pass_1 en st ps = (r, st')"
    | (added) perms g l where "get_permissions en (p_user_id p) (channel_id st) = Inr perms"
        "read_messages en perms" "data_append (list' st) g p = Inr l"
        "pass_1 en (st\<lparr>list' := l\<rparr>) ps = (r, st')"
proof (cases "get_permissions en (p_user_id p) (channel_id st)")
  case (Inl e)
  with assms have "r = Inl e" "st' = st" by auto
  then show ?thesis by (rule failed)
next
  case (Inr perms)
  show ?thesis
  proof (cases "read_messages en perms")
    case False
    with assms Inr have "pass_1 en st ps = (r, st')" by simp
    with Inr False show ?thesis by (rule skipped)
  next
    case True
    let ?g = "if p_status p = ''offline'' then Inr (Name ''offline'')
              else calc_member_group st (p_roles p) (p_status p)"
    show ?thesis
    proof (cases ?g)
      case (Inl e)
      with assms Inr True have "r = Inl e" "st' = st" by auto
      then show ?thesis by (rule failed)
    next
      case g: (Inr group_id)
      show ?thesis
      proof (cases "data_append (list' st) group_id p")
        case (Inl e)
        with assms Inr True g have "r = Inl e" "st' = st" by auto
        then show ?thesis by (rule failed)
      next
        case l: (Inr l)
        with assms Inr True g have "pass_1 en (st\<lparr>list' := l\<rparr>) ps = (r, st')" by simp
        with Inr True l show ?thesis by (rule added)
      qed
    qed
  qed
qed

lemma pass_1_data:
  assumes "pass_1 en st ps = (r, st')" "data (list' st) = Some d"
    "\<forall>(g, b) \<in> set d. \<forall>q \<in> set b. may_read en (channel_id st) q"
  shows "\<exists>d'. data (list' st') = Some d' \<and> fst ` set d' = fst ` set d
          \<and> (\<forall>(g, b) \<in> set d'. \<forall>q \<in> set b. may_read en (channel_id st) q)"
  using assms
proof (induction ps arbitrary: st d)
  case Nil
  then show ?case by auto
next
  case (Cons p ps)
  from Cons.prems(1) show ?case
  proof (cases rule: pass_1_Cons_cases)
    case (failed e)
    with Cons.prems show ?thesis by auto
  next
    case (skipped perms)
    from Cons.IH [OF skipped(3) Cons.prems(2,3)] show ?thesis .
  next
    case (added perms g l)
    from data_append_frame [OF added(3)] Cons.prems(2)
    obtain b0 where b0: "map_of d g = Some b0" and l: "data l = Some (AList.update g (b0 @ [p]) d)"
      by auto
    have p: "may_read en (channel_id st) p"
      using added(1,2) by (auto simp: may_read_def)
    have b0_ok: "\<forall>q \<in> set b0. may_read en (channel_id st) q"
      using Cons.prems(3) map_of_SomeD [OF b0] by auto
    have inv: "\<forall>(g', b) \<in> set (AList.update g (b0 @ [p]) d). \<forall>q \<in> set b. may_read en (channel_id st) q"
    proof (clarify)
      fix g' b q assume "(g', b) \<in> set (AList.update g (b0 @ [p]) d)" "q \<in> set b"
      then have "(g', b) = (g, b0 @ [p]) \<or> (g', b) \<in> set d"
        using set_update_subset [of g "b0 @ [p]" d] by auto
      then show "may_read en (channel_id st) q"
        using \<open>q \<in> set b\<close> p b0_ok Cons.prems(3) by auto
    qed
    have "\<exists>d'. data (list' st') = Some d' \<and> fst ` set d' = fst ` set (AList.update g (b0 @ [p]) d)
          \<and> (\<forall>(g, b) \<in> set d'. \<forall>q \<in> set b. may_read en (channel_id (st\<lparr>list' := l\<rparr>)) q)"
      by (rule Cons.IH [OF added(4)]) (use l inv in simp_all)
    moreover have "g \<in> fst ` set d" using map_of_SomeD [OF b0] by force
    then have "insert g (fst ` set d) = fst ` set d" by auto
    ultimately show ?thesis by (simp add: keys_update)
  qed
qed

lemma sort_groups_frame:
  "sort_groups en st = (r, st') \<Longrightarrow>
     guild_id st' = guild_id st \<and> channel_id st' = channel_id st \<and> state st' = state st
     \<and> groups (list' st') = groups (list' st) \<and> group_info (list' st') = group_info (list' st)
     \<and> overwrites (list' st') = overwrites (list' st)"
  by (auto simp: sort_groups_def split: option.splits sum.splits)

lemma sort_groups_data:
  assumes "sort_groups en st = (Inr u, st')" "data (list' st) = Some d"
  shows "\<exists>members. get_member_data en (guild_id st) = Inr members \<and>
     data (list' st') = Some (map (\<lambda>(g, ps). (g, sort_key (display_name (member_nicks members)) ps)) d)"
  using assms by (auto simp: sort_groups_def split: option.splits sum.splits)


lemma init_member_list_InrE:
  assumes "init_member_list en st = (Inr u, st')"
  obtains ids ps st1 st2 st3 where
    "get_member_ids en (guild_id st) = Inr ids"
    "guild_presences en ids (guild_id st) = Inr ps"
    "set_groups en st = (Inr (), st1)"
    "init_data st1 = (Inr (), st2)"
    "pass_1 en st2 ps = (Inr (), st3)"
    "sort_groups en st3 = (Inr (), st')"
  using assms
  by (auto simp: init_member_list_def split: sum.splits prod.splits)

lemma built:
  assumes "init_member_list en st = (Inr u, st')"
  shows "\<exists>gs d members.
     guild_id st' = guild_id st \<and> channel_id st' = channel_id st \<and> state st' = state st
     \<and> groups (list' st') = Some gs \<and> data (list' st') = Some d
     \<and> group_info (list' st') \<noteq> None \<and> overwrites (list' st') \<noteq> None
     \<and> (\<forall>ge \<in> set gs. \<exists>g. ge = Info g \<and> gid g \<in> fst ` set d)
     \<and> (\<forall>(g, b) \<in> set d. \<forall>q \<in> set b. may_read en (channel_id st) q)
     \<and> get_member_data en (guild_id st) = Inr members
     \<and> (\<forall>(g, b) \<in> set d. sorted (map (display_name (member_nicks members)) b))"
proof -
  from assms obtain ids ps st1 st2 st3 where
    s1: "set_groups en st = (Inr (), st1)" and
    s2: "init_data st1 = (Inr (), st2)" and
    s3: "pass_1 en st2 ps = (Inr (), st3)" and
    s4: "sort_groups en st3 = (Inr (), st')"
    by (rule init_member_list_InrE)
  note f1 = set_groups_frame [OF s1] and o1 = set_groups_ok [OF s1]
  note f2 = init_data_frame [OF s2]
  note f3 = pass_1_frame [OF s3]
  note f4 = sort_groups_frame [OF s4]
  from init_data_ok [OF s2] obtain gs d2 where
    gs: "groups (list' st2) = Some gs" and d2: "data (list' st2) = Some d2" and
    keys2: "\<forall>ge \<in> set gs. \<exists>g. ge = Info g \<and> gid g \<in> fst ` set d2" and
    empty2: "\<forall>(g, ps) \<in> set d2. ps = []"
    by blast
  have "\<forall>(g, b) \<in> set d2. \<forall>q \<in> set b. may_read en (channel_id st2) q"
    using empty2 by fastforce
  from pass_1_data [OF s3 d2 this] obtain d3 where
    d3: "data (list' st3) = Some d3" and keys3: "fst ` set d3 = fst ` set d2" and
    read3: "\<forall>(g, b) \<in> set d3. \<forall>q \<in> set b. may_read en (channel_id st2) q"
    by blast
  from sort_groups_data [OF s4 d3] obtain members where
    members: "get_member_data en (guild_id st3) = Inr members" and
    d4: "data (list' st') = Some (map (\<lambda>(g, ps). (g, sort_key (display_name (member_nicks members)) ps)) d3)"
    by blast
  let ?d = "map (\<lambda>(g, ps). (g, sort_key (display_name (member_nicks members)) ps)) d3"
  have keys4: "fst ` set ?d = fst ` set d2"
    using keys3 by (simp add: image_image case_prod_beta)
  have read4: "\<forall>(g, b) \<in> set ?d. \<forall>q \<in> set b. may_read en (channel_id st) q"
    using read3 f1 f2 by auto
  have sorted4: "\<forall>(g, b) \<in> set ?d. sorted (map (display_name (member_nicks members)) b)"
    by auto
  have chan: "channel_id st2 = channel_id st" "guild_id st3 = guild_id st"
    using f1 f2 f3 by simp_all
  show ?thesis
    apply (rule exI [of _ gs], rule exI [of _ ?d], rule exI [of _ members])
    using f1 f2 f3 f4 o1 gs d4 keys2 keys4 read4 sorted4 members chan
    by simp
qed

lemma built_bool: "init_member_list en st = (Inr u, st') \<Longrightarrow> MemberList_bool (list' st')"
  using built [of en st u st'] by (auto simp: MemberList_bool_def)

lemma built_iter:
  assumes "init_member_list en st = (Inr u, st')"
  shows "\<exists>gps. MemberList_iter (list' st') = Inr gps"
proof -
  from built [OF assms] obtain gs d where
    "groups (list' st') = Some gs" "data (list' st') = Some d"
    "\<forall>ge \<in> set gs. \<exists>g. ge = Info g \<and> gid g \<in> fst ` set d"
    by blast
  then show ?thesis
    using iter_groups_ok [of gs d] by (simp add: MemberList_iter_def)
qed

lemma items_state [simp]: "items (st\<lparr>state := s\<rparr>) = items st"
  by (simp add: items_def)

lemma make_payload_state [simp]: "make_payload (st\<lparr>state := s\<rparr>) ops = make_payload st ops"
  by (simp add: make_payload_def list_id_of_def split: sum.splits)

lemma query_ranges_ok:
  "items st = Inr its \<Longrightarrow>
   query_ranges st sid ranges =
     (Inr (map (\<lambda>(s, e). SYNC (s, e) (py_slice its s e)) (filter (\<lambda>(s, e). s \<le> e) ranges)),
      st\<lparr>state := foldl (\<lambda>d r. state_add d sid r) (state st) (filter (\<lambda>(s, e). s \<le> e) ranges)\<rparr>)"
proof (induction ranges arbitrary: st)
  case Nil
  then show ?case by simp
next
  case (Cons r ranges)
  obtain s e where r: "r = (s, e)" by (cases r)
  show ?case
  proof (cases "s \<le> e")
    case True
    let ?st = "st\<lparr>state := state_add (state st) sid (s, e)\<rparr>"
    have "items ?st = Inr its" using Cons.prems by simp
    from Cons.IH [OF this] True Cons.prems show ?thesis
      by (simp add: r Let_def)
  next
    case False
    with Cons show ?thesis by (simp add: r Let_def)
  qed
qed

lemma map_of_state_add:
  "map_of (state_add d sid r) sid' =
     (if sid' = sid then Some (insert r (case map_of d sid of None \<Rightarrow> {} | Some rs \<Rightarrow> rs))
      else map_of d sid')"
  by (auto simp: state_add_def update_conv' map_add_def split: option.splits)

lemma map_of_foldl_state_add:
  "map_of (foldl (\<lambda>d r. state_add d sid r) d rs) sid' =
     (if sid' = sid \<and> rs \<noteq> []
      then Some ((case map_of d sid of None \<Rightarrow> {} | Some x \<Rightarrow> x) \<union> set rs)
      else map_of d sid')"
proof (induction rs arbitrary: d)
  case Nil
  then show ?case by simp
next
  case (Cons r rs)
  show ?case
    by (cases "rs = []") (auto simp: Cons.IH map_of_state_add split: option.splits)
qed

lemma py_slice_take_drop:
  "0 \<le> s \<Longrightarrow> s \<le> e \<Longrightarrow> py_slice xs s e = take (nat (e - s)) (drop (nat s) xs)"
  by (auto simp: py_slice_def py_bound_def Let_def min_def nat_diff_distrib)

lemma length_flat:
  "length (concat (map (\<lambda>(g, ps). GroupItem (gid g) (length ps) # map MemberItem ps) gps)) =
     (\<Sum>(g, ps) \<leftarrow> gps. 1 + length ps)"
  by (induction gps) auto


lemma iter_groups_sound:
  "iter_groups dd gs = Inr gps \<Longrightarrow>
     gs = map (\<lambda>(g, ps). Info g) gps
     \<and> (\<forall>(g, ps) \<in> set gps. \<exists>d. dd = Some d \<and> map_of d (gid g) = Some ps)"
proof (induction gs arbitrary: gps)
  case Nil
  then show ?case by simp
next
  case (Cons ge gs)
  then show ?case
    by (cases ge) (auto split: option.splits sum.splits)
qed

lemma init_member_list_frame:
  "init_member_list en st = (r, st') \<Longrightarrow>
     guild_id st' = guild_id st \<and> channel_id st' = channel_id st \<and> state st' = state st"
  by (auto simp: init_member_list_def split: sum.splits prod.splits
      dest!: set_groups_frame init_data_frame pass_1_frame sort_groups_frame)

lemma init_check_frame:
  "init_check en st = (r, st') \<Longrightarrow>
     guild_id st' = guild_id st \<and> channel_id st' = channel_id st \<and> state st' = state st"
  by (auto simp: init_check_def split: if_splits dest: init_member_list_frame)

lemma init_check_bool: "init_check en st = (Inr u, st') \<Longrightarrow> MemberList_bool (list' st')"
  by (auto simp: init_check_def split: if_splits dest: built_bool)

lemma items_iter:
  "MemberList_bool (list' st) \<Longrightarrow> items st = Inr its \<Longrightarrow>
     \<exists>gps. MemberList_iter (list' st) = Inr gps
       \<and> its = concat (map (\<lambda>(g, ps). GroupItem (gid g) (length ps) # map MemberItem ps) gps)"
  by (auto simp: items_def split: sum.splits)

lemma dispatch_sess_single:
  assumes "make_payload st ops = Inr pl"
  shows "dispatch_sess en st False [sid] ops =
     (if fetch_raw en sid then (Inr [sid], [(sid, pl)], st)
      else (Inr [], [], snd (unsub st sid)))"
  using assms by (simp add: dispatch_sess_def get_state_def)

lemma shard_query_ready:
  assumes perms: "role_permissions en (guild_id st) (guild_id st) (channel_id st) = Inr ep"
    and here: "\<not> (read_messages en ep \<and> list_id_of st \<noteq> Everyone)"
    and ready: "init_check en st = (Inr (), st1)"
    and its: "items st1 = Inr its"
  shows "\<exists>pl st2.
     make_payload st1 (map (\<lambda>(s, e). SYNC (s, e) (py_slice its s e)) (filter (\<lambda>(s, e). s \<le> e) ranges)) = Inr pl
     \<and> st2 = st1\<lparr>state := foldl (\<lambda>d r. state_add d sid r) (state st1) (filter (\<lambda>(s, e). s \<le> e) ranges)\<rparr>
     \<and> shard_query en st sid ranges =
         (if fetch_raw en sid then (Inr (Answered [sid] [(sid, pl)]), st2)
          else (Inr (Answered [] []), snd (unsub st2 sid)))"
proof -
  let ?ops = "map (\<lambda>(s, e). SYNC (s, e) (py_slice its s e)) (filter (\<lambda>(s, e). s \<le> e) ranges)"
  let ?st2 = "st1\<lparr>state := foldl (\<lambda>d r. state_add d sid r) (state st1) (filter (\<lambda>(s, e). s \<le> e) ranges)\<rparr>"
  from items_iter [OF init_check_bool [OF ready] its] obtain gps where
    "MemberList_iter (list' st1) = Inr gps" by blast
  then obtain pl where pl: "make_payload st1 ?ops = Inr pl"
    by (simp add: make_payload_def)
  then have pl2: "make_payload ?st2 ?ops = Inr pl" by simp
  have q: "query_ranges st1 sid ranges = (Inr ?ops, ?st2)"
    by (rule query_ranges_ok [OF its])
  show ?thesis
    using perms here ready q pl dispatch_sess_single [OF pl2, of en sid]
    by (simp add: shard_query_def)
qed

lemma mix_group_cong: "overwrites l = overwrites l' \<Longrightarrow> mix_group en l = mix_group en l'"
  by (rule ext) (simp add: mix_group_def)

lemma mix_group_simps [simp]:
  "gid (mix_group en l g) = gid g" "position (mix_group en l g) = position g"
  by (simp_all add: mix_group_def)

lemma set_groups_groups:
  assumes "set_groups en st = (Inr u, st1)" "fetch_roles en (guild_id st) = Inr roledata"
  shows "groups (list' st1) =
     Some (map (\<lambda>g. Bare (gid g))
             (sort_key position
                (filter (\<lambda>g. read_messages en (permissions (mix_group en (list' st1) g)))
                   (hoisted_groups roledata)))
           @ [Info online_group, Info offline_group])"
proof -
  from assms obtain st0 where
    fo: "fetch_overwrites en st = (Inr (), st0)" and
    st1: "st1 = st0\<lparr>list' := (list' st0)\<lparr>
             groups := Some (map Bare (map gid (filter (\<lambda>g. read_messages en (permissions g))
                          (map (mix_group en (list' st0)) (sort_key position (hoisted_groups roledata)))))
                        @ [Info online_group, Info offline_group]),
             group_info := Some (dict_of (map (\<lambda>g. (gid g, g)) (filter (\<lambda>g. read_messages en (permissions g))
                          (map (mix_group en (list' st0)) (sort_key position (hoisted_groups roledata))))))\<rparr>\<rparr>"
    by (auto simp: set_groups_def get_roles_def Let_def split: sum.splits prod.splits)
  have m: "mix_group en (list' st1) = mix_group en (list' st0)"
    by (rule mix_group_cong) (simp add: st1)
  let ?m = "mix_group en (list' st0)"
  let ?H = "hoisted_groups roledata"
  have g1: "groups (list' st1) =
      Some (map Bare (map gid (filter (\<lambda>g. read_messages en (permissions g))
                                  (map ?m (sort_key position ?H))))
            @ [Info online_group, Info offline_group])"
    by (simp add: st1)
  have "map gid (filter (\<lambda>g. read_messages en (permissions g)) (map ?m (sort_key position ?H)))
        = map gid (filter (\<lambda>g. read_messages en (permissions (?m g))) (sort_key position ?H))"
    by (simp add: filter_map comp_def)
  also have "\<dots> = map gid (sort_key position (filter (\<lambda>g. read_messages en (permissions (?m g))) ?H))"
    by (simp add: filter_sort)
  finally have e: "map gid (filter (\<lambda>g. read_messages en (permissions g)) (map ?m (sort_key position ?H)))
        = map gid (sort_key position (filter (\<lambda>g. read_messages en (permissions (?m g))) ?H))" .
  show ?thesis
    unfolding m g1 e by (simp add: comp_def)
qed

text \<open>
  With at least one hoisted role that may read the channel, \<^verbatim>\<open>set_groups\<close> puts a bare id
  first in the groups, and the build raises when it initialises the buckets.
\<close>

lemma build_raises_when_role_kept:
  assumes "get_member_ids en (guild_id st) = Inr ids"
    and "guild_presences en ids (guild_id st) = Inr ps"
    and "fetch_roles en (guild_id st) = Inr roledata"
    and "set_groups en st = (Inr (), st1)"
    and "filter (\<lambda>g. read_messages en (permissions (mix_group en (list' st1) g)))
           (hoisted_groups roledata) \<noteq> []"
  shows "init_member_list en st = (Inl AttributeError, st1)"
proof -
  let ?kept = "sort_key position
     (filter (\<lambda>g. read_messages en (permissions (mix_group en (list' st1) g)))
        (hoisted_groups roledata))"
  have "length ?kept \<noteq> 0" using assms(5) by simp
  then obtain g gs where kept: "?kept = g # gs" by (cases ?kept) auto
  have "groups (list' st1) = Some (Bare (gid g) # map (\<lambda>g. Bare (gid g)) gs
          @ [Info online_group, Info offline_group])"
    using set_groups_groups [OF assms(4,3)] by (simp only: kept) simp
  then have "init_data st1 = (Inl AttributeError, st1)"
    by (simp add: init_data_def)
  with assms(1,2,4) show ?thesis by (simp add: init_member_list_def)
qed
















text \<open>The two ways in which the registry continues after \<^verbatim>\<open>shard_query\<close> on a list.\<close>

lemma gml_shard_query_handed_over:
  assumes "get_gml en lg chan = (Inr gml, lg1)"
    and "shard_query en gml sid ranges = (Inr (Redirect g), gml')"
  shows "gml_shard_query (Suc n) en lg chan sid ranges = gml_shard_query n en lg1 g sid ranges"
  using assms by simp

lemma gml_shard_query_answered:
  assumes "get_gml en lg chan = (Inr gml, lg1)"
    and "shard_query en gml sid ranges = (Inr (Answered dispatched msgs), gml')"
  shows "gml_shard_query (Suc n) en lg chan sid ranges =
     (Some (Inr (dispatched, msgs)), lg1\<lparr>lg_state := AList.update chan gml' (lg_state lg1)\<rparr>)"
  using assms by simp

lemma first_group_ok:
  "\<forall>ge \<in> set gs. \<exists>g. ge = Info g \<and> gid g \<in> K \<Longrightarrow>
     first_group gs rs = Inr None \<or> (\<exists>g. first_group gs rs = Inr (Some g) \<and> g \<in> K)"
proof (induction gs)
  case Nil
  then show ?case by simp
next
  case (Cons ge gs)
  then obtain g where "ge = Info g" "gid g \<in> K" by auto
  with Cons show ?case by auto
qed

lemma calc_member_group_ok:
  assumes "groups (list' st) = Some gs"
    and "\<forall>ge \<in> set gs. \<exists>g. ge = Info g \<and> gid g \<in> K"
    and "Name ''online'' \<in> K" "Name ''offline'' \<in> K"
  shows "\<exists>g. calc_member_group st rs s = Inr g \<and> g \<in> K"
  using first_group_ok [OF assms(2), of rs] assms(1,3,4)
  by (auto simp: calc_member_group_def to_simple_group_def)

lemma data_append_ok:
  "data l = Some d \<Longrightarrow> g \<in> fst ` set d \<Longrightarrow>
     \<exists>ps. data_append l g p = Inr (l\<lparr>data := Some (AList.update g (ps @ [p]) d)\<rparr>)"
  using map_of_keys [of d g] by (auto simp: data_append_def)

lemma pass_1_fst:
  assumes "groups (list' st) = Some gs" "data (list' st) = Some d"
    and "\<forall>ge \<in> set gs. \<exists>g. ge = Info g \<and> gid g \<in> fst ` set d"
    and "Name ''online'' \<in> fst ` set d" "Name ''offline'' \<in> fst ` set d"
  shows "fst (pass_1 en st ps) =
     (case perm_error en (channel_id st) ps of None \<Rightarrow> Inr () | Some e \<Rightarrow> Inl e)"
  using assms
proof (induction ps arbitrary: st d)
  case Nil
  then show ?case by simp
next
  case (Cons p ps)
  show ?case
  proof (cases "get_permissions en (p_user_id p) (channel_id st)")
    case (Inl e)
    then show ?thesis by simp
  next
    case (Inr perms)
    show ?thesis
    proof (cases "read_messages en perms")
      case False
      with Inr Cons.IH [OF Cons.prems] show ?thesis by simp
    next
      case True
      let ?K = "fst ` set d"
      have "\<exists>g. (if p_status p = ''offline'' then Inr (Name ''offline'')
                  else calc_member_group st (p_roles p) (p_status p)) = Inr g \<and> g \<in> ?K"
        using calc_member_group_ok [OF Cons.prems(1,3,4,5), of "p_roles p" "p_status p"]
          Cons.prems(5) by auto
      then obtain g where g: "(if p_status p = ''offline'' then Inr (Name ''offline'')
                  else calc_member_group st (p_roles p) (p_status p)) = Inr g" and gk: "g \<in> ?K"
        by blast
      from data_append_ok [OF Cons.prems(2) gk, of p] obtain b where
        l: "data_append (list' st) g p = Inr ((list' st)\<lparr>data := Some (AList.update g (b @ [p]) d)\<rparr>)"
        by blast
      let ?l = "(list' st)\<lparr>data := Some (AList.update g (b @ [p]) d)\<rparr>"
      have keys: "fst ` set (AList.update g (b @ [p]) d) = ?K"
        using gk by (auto simp: keys_update)
      have "fst (pass_1 en (st\<lparr>list' := ?l\<rparr>) ps) =
          (case perm_error en (channel_id (st\<lparr>list' := ?l\<rparr>)) ps of None \<Rightarrow> Inr () | Some e \<Rightarrow> Inl e)"
        by (rule Cons.IH [where d = "AList.update g (b @ [p]) d"])
          (use Cons.prems keys in simp_all)
      moreover have "pass_1 en st (p # ps) = pass_1 en (st\<lparr>list' := ?l\<rparr>) ps"
        using Inr True g l by simp
      ultimately show ?thesis using Inr by simp
    qed
  qed
qed

lemma set_groups_synthetic:
  "set_groups en st = (Inr u, st1) \<Longrightarrow>
     \<exists>gs. groups (list' st1) = Some gs \<and> Info online_group \<in> set gs \<and> Info offline_group \<in> set gs"
  by (auto simp: set_groups_def Let_def split: prod.splits sum.splits)

text \<open>
  The outcome of a build that has initialised the buckets: the first failure of the
  permission resolver, else the failure of the fetch of the member data, else success; in
  both cases of failure the list is left with all four fields assigned.
\<close>

lemma build_after_init_data:
  assumes ids: "get_member_ids en (guild_id st) = Inr ids"
    and ps: "guild_presences en ids (guild_id st) = Inr ps"
    and s1: "set_groups en st = (Inr (), st1)"
    and s2: "init_data st1 = (Inr (), st2)"
  shows "\<exists>st3. MemberList_bool (list' st3)
     \<and> (case perm_error en (channel_id st) ps of
          Some e \<Rightarrow> init_member_list en st = (Inl e, st3)
        | None \<Rightarrow>
            (case get_member_data en (guild_id st) of
               Inl e \<Rightarrow> init_member_list en st = (Inl e, st3)
             | Inr members \<Rightarrow> fst (init_member_list en st) = Inr ()))"
proof -
  obtain r st3 where p1: "pass_1 en st2 ps = (r, st3)" by (cases "pass_1 en st2 ps")
  from init_data_ok [OF s2] obtain gs d where
    gs: "groups (list' st2) = Some gs" and d: "data (list' st2) = Some d" and
    keys: "\<forall>ge \<in> set gs. \<exists>g. ge = Info g \<and> gid g \<in> fst ` set d" and
    empty: "\<forall>(g, ps) \<in> set d. ps = []"
    by blast
  from set_groups_synthetic [OF s1] init_data_frame [OF s2] gs
  have syn: "Info online_group \<in> set gs" "Info offline_group \<in> set gs" by auto
  have "gid online_group \<in> fst ` set d" "gid offline_group \<in> fst ` set d"
    using keys syn by blast+
  then have on: "Name ''online'' \<in> fst ` set d" "Name ''offline'' \<in> fst ` set d"
    by (simp_all add: online_group_def offline_group_def)
  have chan: "channel_id st2 = channel_id st" "guild_id st3 = guild_id st"
    using set_groups_frame [OF s1] init_data_frame [OF s2] pass_1_frame [OF p1] by simp_all
  have r: "r = (case perm_error en (channel_id st) ps of None \<Rightarrow> Inr () | Some e \<Rightarrow> Inl e)"
    using pass_1_fst [OF gs d keys on, of en ps] p1 chan by simp
  have "\<forall>(g, b) \<in> set d. \<forall>q \<in> set b. may_read en (channel_id st2) q"
    using empty by fastforce
  from pass_1_data [OF p1 d this] obtain d3 where d3: "data (list' st3) = Some d3" by blast
  have bool: "MemberList_bool (list' st3)"
    using set_groups_ok [OF s1] init_data_frame [OF s2] pass_1_frame [OF p1] d3
    by (simp add: MemberList_bool_def)
  show ?thesis
  proof (cases "perm_error en (channel_id st) ps")
    case (Some e)
    with r p1 ids ps s1 s2 have "init_member_list en st = (Inl e, st3)"
      by (simp add: init_member_list_def)
    with bool Some show ?thesis by auto
  next
    case None
    with r have r': "r = Inr ()" by simp
    show ?thesis
    proof (cases "get_member_data en (guild_id st)")
      case (Inl e)
      then have "sort_groups en st3 = (Inl e, st3)"
        using chan by (simp add: sort_groups_def)
      with r' p1 ids ps s1 s2 have "init_member_list en st = (Inl e, st3)"
        by (simp add: init_member_list_def)
      with bool None Inl show ?thesis by auto
    next
      case (Inr members)
      then have "fst (sort_groups en st3) = Inr ()"
        using chan d3 by (simp add: sort_groups_def)
      with r' p1 ids ps s1 s2 have "fst (init_member_list en st) = Inr ()"
        by (simp add: init_member_list_def split: prod.splits)
      with bool None Inr show ?thesis by auto
    qed
  qed
qed

section \<open>The claims\<close>

lemmas ex_defs =
  ex_env_def ex_gml_def ex_list_def ex_items_def new_gml_def alice_def bob_def carol_def dave_def
  empty_list_def online_group_def offline_group_def

lemmas build_defs =
  init_check_def init_member_list_def set_groups_def get_roles_def fetch_overwrites_def
  hoisted_groups_def mix_group_def dict_of_def init_data_def calc_member_group_def
  to_simple_group_def data_append_def sort_groups_def member_nicks_def display_name_def
  py_or_def MemberList_bool_def

lemma ex_build: "init_member_list ex_env ex_gml = (Inr (), ex_gml\<lparr>list' := ex_list\<rparr>)"
  by (simp add: ex_defs build_defs)

lemmas query_defs =
  shard_query_def list_id_of_def state_add_def items_def MemberList_iter_def py_slice_def
  py_bound_def dispatch_sess_def make_payload_def get_state_def Let_def

lemma ex_items: "items (ex_gml\<lparr>list' := ex_list\<rparr>) = Inr ex_items"
  by (simp add: ex_defs items_def MemberList_iter_def MemberList_bool_def)

lemmas update_defs =
  pres_update_def py_not_def presence_update_def get_id_def is_in_def dispatch_sess_def
  make_payload_def get_state_def items_def MemberList_iter_def init_check_def MemberList_bool_def
  list_id_of_def Let_def

lemma ex_subscribe:
  "shard_query ex_env ex_gml ''s1'' [(0, 2)] =
     (Inr (Answered [''s1'']
        [(''s1'', \<lparr>pl_id = Everyone, pl_guild_id = 10,
                   pl_groups = [(2, Name ''online''), (1, Name ''offline'')],
                   pl_ops = [SYNC (0, 2) [GroupItem (Name ''online'') 2, MemberItem alice]]\<rparr>)]),
      ex_subscribed)"
  by (simp add: ex_defs ex_subscribed_def query_defs build_defs)

lemma ex_set_groups: "set_groups ex_env_roles ex_gml = (Inr (), ex_gml\<lparr>list' := ex_role_list\<rparr>)"
  by (simp add: ex_defs ex_roles_def ex_env_roles_def ex_role_list_def build_defs)

text \<open>
  A query for channel 11, which everyone may read, is handed over to the list of the guild:
  the ranges are recorded there, and the list of channel 11 stays empty.
\<close>

lemma ex_handed_over:
  "gml_shard_query 2 ex_env \<lparr>lg_state = [], guild_map = []\<rparr> 11 ''s1'' [(0, 2)] =
     (Some (Inr ([''s1''],
        [(''s1'', \<lparr>pl_id = Everyone, pl_guild_id = 10,
                   pl_groups = [(2, Name ''online''), (1, Name ''offline'')],
                   pl_ops = [SYNC (0, 2) [GroupItem (Name ''online'') 2, MemberItem alice]]\<rparr>)])),
      \<lparr>lg_state = [(11, new_gml 10 11), (10, ex_subscribed)], guild_map = [(10, [11, 10])]\<rparr>)"
proof -
  have two: "(2::nat) = Suc (Suc 0)" by simp
  have g11: "get_gml ex_env \<lparr>lg_state = [], guild_map = []\<rparr> 11 =
      (Inr (new_gml 10 11), \<lparr>lg_state = [(11, new_gml 10 11)], guild_map = [(10, [11])]\<rparr>)"
    by (simp add: get_gml_def ex_env_def Let_def)
  have r: "shard_query ex_env (new_gml 10 11) ''s1'' [(0, 2)] = (Inr (Redirect 10), new_gml 10 11)"
    by (simp add: shard_query_def list_id_of_def new_gml_def ex_env_def)
  have g10: "get_gml ex_env \<lparr>lg_state = [(11, new_gml 10 11)], guild_map = [(10, [11])]\<rparr> 10 =
      (Inr ex_gml, \<lparr>lg_state = [(11, new_gml 10 11), (10, ex_gml)], guild_map = [(10, [11, 10])]\<rparr>)"
    by (simp add: get_gml_def ex_env_def ex_gml_def Let_def)
  show ?thesis
    unfolding two
    by (simp only: gml_shard_query_handed_over [OF g11 r]
        gml_shard_query_answered [OF g10 ex_subscribe]) simp
qed

text \<open>
  C1 (build atomicity), as stated, fails. For the example guild let the permission resolver
  fail for Alice, whose presence is the last one. The triggering \<^verbatim>\<open>sub\<close> on the empty store
  raises that error, but the store keeps what the build had assigned: all four fields are
  set, with Bob and Carol in their buckets, unsorted and without Alice. The list counts as
  initialised, so the next readiness check, even with a resolver that now works, builds
  nothing.
\<close>

theorem partial_roster_counterexample:
  "list' ex_gml = empty_list
   \<and> sub ex_env_perm_fails ex_gml ''s1'' =
       (Inl (CollaboratorError ''get_permissions''), ex_gml\<lparr>list' := ex_partial\<rparr>)
   \<and> ex_partial \<noteq> empty_list
   \<and> MemberList_bool ex_partial
   \<and> init_check ex_env (ex_gml\<lparr>list' := ex_partial\<rparr>) = (Inr (), ex_gml\<lparr>list' := ex_partial\<rparr>)"
  by (simp add: sub_def ex_defs ex_env_perm_fails_def ex_partial_def build_defs)

text \<open>
  C1, amended. On a store whose list is empty, a failure of a collaborator call that a build
  makes is raised by the triggering \<^verbatim>\<open>sub\<close>, and by a \<^verbatim>\<open>shard_query\<close> that this list
  answers. When the failing call is the fetch of the member ids, of the presences, of the
  roles or of the overwrites, the store is left as it was, with its list empty. When the
  build has initialised the buckets (so it reaches the permission resolver) and the
  resolver fails for a presence, or the resolver fails for none and the fetch of the member
  data fails, the store is left with all four fields of the list assigned, and a later
  readiness check builds nothing. The readiness check of a store with an empty list always
  runs a build.
\<close>

theorem build_failure_propagates:
  assumes "list' st = empty_list"
  shows "(fetch_error en st = Some e \<longrightarrow>
            sub en st sid = (Inl e, st)
          \<and> (\<forall>ep. role_permissions en (guild_id st) (guild_id st) (channel_id st) = Inr ep \<longrightarrow>
                 \<not> (read_messages en ep \<and> list_id_of st \<noteq> Everyone) \<longrightarrow>
                 shard_query en st sid ranges = (Inl e, st)))
       \<and> (\<forall>ids ps st1 st2.
             get_member_ids en (guild_id st) = Inr ids \<longrightarrow>
             guild_presences en ids (guild_id st) = Inr ps \<longrightarrow>
             set_groups en st = (Inr (), st1) \<longrightarrow>
             init_data st1 = (Inr (), st2) \<longrightarrow>
             (perm_error en (channel_id st) ps = Some e
              \<or> perm_error en (channel_id st) ps = None
                \<and> get_member_data en (guild_id st) = Inl e) \<longrightarrow>
             (\<exists>st'. sub en st sid = (Inl e, st')
                \<and> (\<forall>ep. role_permissions en (guild_id st) (guild_id st) (channel_id st) = Inr ep \<longrightarrow>
                       \<not> (read_messages en ep \<and> list_id_of st \<noteq> Everyone) \<longrightarrow>
                       shard_query en st sid ranges = (Inl e, st'))
                \<and> MemberList_bool (list' st')
                \<and> init_check en' st' = (Inr (), st')))
       \<and> init_check en' st = init_member_list en' st"
proof -
  have nb: "\<not> MemberList_bool (list' st)"
    using assms by (simp add: MemberList_bool_def empty_list_def)
  have chk: "init_check en'' st = init_member_list en'' st" for en''
    using nb by (simp add: init_check_def)
  have q: "shard_query en st sid ranges = (Inl e, st')"
    if "init_member_list en st = (Inl e, st')"
      "role_permissions en (guild_id st) (guild_id st) (channel_id st) = Inr ep"
      "\<not> (read_messages en ep \<and> list_id_of st \<noteq> Everyone)"
    for st' ep
    using that chk [of en] by (simp add: shard_query_def)
  have a: "init_member_list en st = (Inl e, st)" if "fetch_error en st = Some e"
    using that
    by (auto simp: fetch_error_def init_member_list_def set_groups_def get_roles_def
        fetch_overwrites_def Let_def split: sum.splits)
  have c1: "fetch_error en st = Some e \<longrightarrow>
            sub en st sid = (Inl e, st)
          \<and> (\<forall>ep. role_permissions en (guild_id st) (guild_id st) (channel_id st) = Inr ep \<longrightarrow>
                 \<not> (read_messages en ep \<and> list_id_of st \<noteq> Everyone) \<longrightarrow>
                 shard_query en st sid ranges = (Inl e, st))"
    using a q chk [of en] by (simp add: sub_def)
  have c2: "\<exists>st'. sub en st sid = (Inl e, st')
                \<and> (\<forall>ep. role_permissions en (guild_id st) (guild_id st) (channel_id st) = Inr ep \<longrightarrow>
                       \<not> (read_messages en ep \<and> list_id_of st \<noteq> Everyone) \<longrightarrow>
                       shard_query en st sid ranges = (Inl e, st'))
                \<and> MemberList_bool (list' st')
                \<and> init_check en' st' = (Inr (), st')"
    if h: "get_member_ids en (guild_id st) = Inr ids"
      "guild_presences en ids (guild_id st) = Inr ps"
      "set_groups en st = (Inr (), st1)"
      "init_data st1 = (Inr (), st2)"
      and f: "perm_error en (channel_id st) ps = Some e
              \<or> perm_error en (channel_id st) ps = None
                \<and> get_member_data en (guild_id st) = Inl e"
    for ids ps st1 st2
  proof -
    from build_after_init_data [OF h] f obtain st3 where
      b: "MemberList_bool (list' st3)" and r: "init_member_list en st = (Inl e, st3)"
      by auto
    have "sub en st sid = (Inl e, st3)" using r chk [of en] by (simp add: sub_def)
    moreover have "init_check en' st3 = (Inr (), st3)" using b by (simp add: init_check_def)
    ultimately show ?thesis using b q [OF r] by blast
  qed
  from c1 c2 chk [of en'] show ?thesis by blast
qed

theorem build_failure_propagates_witness:
  "list' ex_gml = empty_list
   \<and> fetch_error ex_env_ov_fails ex_gml = Some (CollaboratorError ''chan_overwrites'')
   \<and> sub ex_env_ov_fails ex_gml ''s1'' = (Inl (CollaboratorError ''chan_overwrites''), ex_gml)
   \<and> get_member_ids ex_env_perm_fails (guild_id ex_gml) = Inr [1, 2, 3, 4]
   \<and> guild_presences ex_env_perm_fails [1, 2, 3, 4] (guild_id ex_gml) = Inr [bob, carol, dave, alice]
   \<and> set_groups ex_env_perm_fails ex_gml = (Inr (), ex_gml\<lparr>list' := ex_grouped\<rparr>)
   \<and> init_data (ex_gml\<lparr>list' := ex_grouped\<rparr>) =
       (Inr (), ex_gml\<lparr>list' := ex_grouped\<lparr>data := Some [(Name ''online'', []), (Name ''offline'', [])]\<rparr>\<rparr>)
   \<and> perm_error ex_env_perm_fails (channel_id ex_gml) [bob, carol, dave, alice] =
       Some (CollaboratorError ''get_permissions'')
   \<and> sub ex_env_perm_fails ex_gml ''s1'' =
       (Inl (CollaboratorError ''get_permissions''), ex_gml\<lparr>list' := ex_partial\<rparr>)
   \<and> shard_query ex_env_perm_fails ex_gml ''s1'' [(0, 2)] =
       (Inl (CollaboratorError ''get_permissions''), ex_gml\<lparr>list' := ex_partial\<rparr>)
   \<and> MemberList_bool ex_partial
   \<and> perm_error ex_env_nick_fails (channel_id ex_gml) [bob, carol, dave, alice] = None
   \<and> get_member_data ex_env_nick_fails (guild_id ex_gml) = Inl (CollaboratorError ''get_member_data'')
   \<and> sub ex_env_nick_fails ex_gml ''s1'' =
       (Inl (CollaboratorError ''get_member_data''), ex_gml\<lparr>list' := ex_unsorted\<rparr>)
   \<and> MemberList_bool ex_unsorted"
proof -
  have h: "list' ex_gml = empty_list" by (simp add: ex_gml_def new_gml_def)
  have f: "fetch_error ex_env_ov_fails ex_gml = Some (CollaboratorError ''chan_overwrites'')"
    by (simp add: fetch_error_def ex_env_ov_fails_def ex_env_def)
  have i: "get_member_ids ex_env_perm_fails (guild_id ex_gml) = Inr [1, 2, 3, 4]"
    "guild_presences ex_env_perm_fails [1, 2, 3, 4] (guild_id ex_gml) = Inr [bob, carol, dave, alice]"
    "get_member_ids ex_env_nick_fails (guild_id ex_gml) = Inr [1, 2, 3, 4]"
    "guild_presences ex_env_nick_fails [1, 2, 3, 4] (guild_id ex_gml) = Inr [bob, carol, dave, alice]"
    by (simp_all add: ex_env_perm_fails_def ex_env_nick_fails_def ex_env_def)
  have g: "set_groups ex_env_perm_fails ex_gml = (Inr (), ex_gml\<lparr>list' := ex_grouped\<rparr>)"
    "set_groups ex_env_nick_fails ex_gml = (Inr (), ex_gml\<lparr>list' := ex_grouped\<rparr>)"
    by (simp_all add: ex_defs ex_env_perm_fails_def ex_env_nick_fails_def ex_grouped_def build_defs)
  have d: "init_data (ex_gml\<lparr>list' := ex_grouped\<rparr>) =
       (Inr (), ex_gml\<lparr>list' := ex_grouped\<lparr>data := Some [(Name ''online'', []), (Name ''offline'', [])]\<rparr>\<rparr>)"
    by (simp add: ex_defs ex_grouped_def init_data_def dict_of_def)
  have p: "perm_error ex_env_perm_fails (channel_id ex_gml) [bob, carol, dave, alice] =
       Some (CollaboratorError ''get_permissions'')"
    by (simp add: ex_env_perm_fails_def ex_env_def alice_def bob_def carol_def dave_def)
  have pn: "perm_error ex_env_nick_fails (channel_id ex_gml) [bob, carol, dave, alice] = None"
    by (simp add: ex_env_nick_fails_def ex_env_def alice_def bob_def carol_def dave_def)
  have m: "get_member_data ex_env_nick_fails (guild_id ex_gml) = Inl (CollaboratorError ''get_member_data'')"
    by (simp add: ex_env_nick_fails_def ex_env_def)
  have s1: "sub ex_env_perm_fails ex_gml ''s1'' =
       (Inl (CollaboratorError ''get_permissions''), ex_gml\<lparr>list' := ex_partial\<rparr>)"
    by (simp add: sub_def ex_defs ex_env_perm_fails_def ex_partial_def build_defs)
  have s2: "sub ex_env_nick_fails ex_gml ''s1'' =
       (Inl (CollaboratorError ''get_member_data''), ex_gml\<lparr>list' := ex_unsorted\<rparr>)"
    by (simp add: sub_def ex_defs ex_env_nick_fails_def ex_unsorted_def build_defs)
  have rp: "role_permissions ex_env_perm_fails (guild_id ex_gml) (guild_id ex_gml) (channel_id ex_gml) = Inr 1024"
    "\<not> (read_messages ex_env_perm_fails 1024 \<and> list_id_of ex_gml \<noteq> Everyone)"
    by (simp_all add: ex_env_perm_fails_def ex_env_def list_id_of_def ex_gml_def new_gml_def)
  note t1 = build_failure_propagates [OF h, where en = ex_env_ov_fails
      and e = "CollaboratorError ''chan_overwrites''" and sid = "''s1''"]
  note t2 = build_failure_propagates [OF h, where en = ex_env_perm_fails
      and e = "CollaboratorError ''get_permissions''" and sid = "''s1''" and ranges = "[(0, 2)]"]
  note t3 = build_failure_propagates [OF h, where en = ex_env_nick_fails
      and e = "CollaboratorError ''get_member_data''" and sid = "''s1''"]
  have a1: "sub ex_env_ov_fails ex_gml ''s1'' = (Inl (CollaboratorError ''chan_overwrites''), ex_gml)"
    using t1 f by blast
  from t2 i(1,2) g(1) d p obtain st' where
    st': "sub ex_env_perm_fails ex_gml ''s1'' = (Inl (CollaboratorError ''get_permissions''), st')"
      "\<forall>ep. role_permissions ex_env_perm_fails (guild_id ex_gml) (guild_id ex_gml) (channel_id ex_gml) = Inr ep \<longrightarrow>
          \<not> (read_messages ex_env_perm_fails ep \<and> list_id_of ex_gml \<noteq> Everyone) \<longrightarrow>
          shard_query ex_env_perm_fails ex_gml ''s1'' [(0, 2)] = (Inl (CollaboratorError ''get_permissions''), st')"
      "MemberList_bool (list' st')"
    by blast
  from st'(1) s1 have e1: "st' = ex_gml\<lparr>list' := ex_partial\<rparr>" by simp
  have a2: "shard_query ex_env_perm_fails ex_gml ''s1'' [(0, 2)] =
       (Inl (CollaboratorError ''get_permissions''), ex_gml\<lparr>list' := ex_partial\<rparr>)"
    using st'(2) rp e1 by blast
  have b2: "MemberList_bool ex_partial" using st'(3) e1 by simp
  from t3 i(3,4) g(2) d pn m obtain st'' where
    st'': "sub ex_env_nick_fails ex_gml ''s1'' = (Inl (CollaboratorError ''get_member_data''), st'')"
      "MemberList_bool (list' st'')"
    by blast
  from st''(1) s2 have "st'' = ex_gml\<lparr>list' := ex_unsorted\<rparr>" by simp
  with st''(2) have b3: "MemberList_bool ex_unsorted" by simp
  from h f a1 i(1,2) g(1) d p s1 a2 b2 pn m s2 b3 show ?thesis by simp
qed

text \<open>
  C2 (subscription isolation), evaluated where it fails. Session \<open>s1\<close> has recorded the one
  range \<open>[0, 2)\<close> and was sent the items at the indices 0 and 1. Bob is at the flat index 2,
  which that range does not contain; his presence update is dispatched to \<open>s1\<close> all the
  same, as \<^verbatim>\<open>_is_in\<close> accepts \<^verbatim>\<open>range_start <= item_index <= range_end\<close>.
\<close>

theorem pres_update_end_of_range:
  "map_of (state ex_subscribed) ''s1'' = Some {(0, 2)}
   \<and> items ex_subscribed = Inr ex_items
   \<and> ex_items ! 2 = MemberItem bob
   \<and> \<not> (0 \<le> (2::int) \<and> (2::int) < 2)
   \<and> fst (pres_update ex_env ex_subscribed 2 ex_dnd) = Inr [''s1'']
   \<and> fst (snd (pres_update ex_env ex_subscribed 2 ex_dnd)) =
       [(''s1'', \<lparr>pl_id = Everyone, pl_guild_id = 10,
                  pl_groups = [(2, Name ''online''), (1, Name ''offline'')],
                  pl_ops = [UPDATE 2 (MemberItem (bob\<lparr>p_status := ''dnd''\<rparr>))]\<rparr>)]"
  by (simp add: ex_defs ex_subscribed_def ex_dnd_def update_defs)

text \<open>
  C3 (presence merge), evaluated where it fails. Alice is the first member of the bucket of
  \<^verbatim>\<open>online\<close>, so \<^verbatim>\<open>index_by_func\<close> finds her at \<^verbatim>\<open>p_idx = 0\<close>, \<^verbatim>\<open>not p_idx\<close> holds and the
  bucket is skipped: the update to \<open>dnd\<close> is not merged, the store is unchanged, and the
  \<^verbatim>\<open>UPDATE\<close> that is dispatched carries her record with the old status. For Bob, at
  position 1 of the same bucket, the same update is merged.
\<close>

theorem pres_update_first_of_bucket:
  "data (list' ex_subscribed) = Some [(Name ''online'', [alice, bob]), (Name ''offline'', [carol])]
   \<and> p_status alice = ''online''
   \<and> pp_status ex_dnd = Some ''dnd''
   \<and> pres_update ex_env ex_subscribed 1 ex_dnd =
       (Inr [''s1''],
        [(''s1'', \<lparr>pl_id = Everyone, pl_guild_id = 10,
                   pl_groups = [(2, Name ''online''), (1, Name ''offline'')],
                   pl_ops = [UPDATE 1 (MemberItem alice)]\<rparr>)],
        ex_subscribed)
   \<and> data (list' (snd (snd (pres_update ex_env ex_subscribed 2 ex_dnd)))) =
       Some [(Name ''online'', [alice, bob\<lparr>p_status := ''dnd''\<rparr>]), (Name ''offline'', [carol])]"
  by (simp add: ex_defs ex_subscribed_def ex_dnd_def update_defs)

text \<open>
  C4 (flat-index consistency). For the list that a build leaves, iterating the list yields
  the groups in their order, each with its bucket; the flat sequence \<^verbatim>\<open>items\<close> has one header
  per group and one entry per member of its bucket, so its length is the sum over the groups
  of one plus the length of the bucket; and every message that a \<^verbatim>\<open>shard_query\<close> on this list
  sends carries, for each requested range with \<^verbatim>\<open>end >= start\<close> and in the order of the
  request, a \<^verbatim>\<open>SYNC\<close> whose items are the slice \<^verbatim>\<open>items[start:end]\<close>: for a range inside the
  index space (\<open>0 \<le> start\<close>) these are the items from \<open>start\<close> up to, not including, \<open>end\<close>.
\<close>

theorem flat_index_consistency:
  assumes "init_member_list en st0 = (Inr (), st)"
  shows "\<exists>gps its.
      MemberList_iter (list' st) = Inr gps
    \<and> groups (list' st) = Some (map (\<lambda>(g, ps). Info g) gps)
    \<and> (\<forall>(g, ps) \<in> set gps. \<exists>d. data (list' st) = Some d \<and> map_of d (gid g) = Some ps)
    \<and> items st = Inr its
    \<and> its = concat (map (\<lambda>(g, ps). GroupItem (gid g) (length ps) # map MemberItem ps) gps)
    \<and> length its = (\<Sum>(g, ps) \<leftarrow> gps. 1 + length ps)
    \<and> (\<forall>en' sid ranges dispatched msgs st'.
          shard_query en' st sid ranges = (Inr (Answered dispatched msgs), st') \<longrightarrow>
          (\<forall>(s', pl) \<in> set msgs.
             pl_ops pl = map (\<lambda>(s, e). SYNC (s, e) (py_slice its s e))
                           (filter (\<lambda>(s, e). s \<le> e) ranges)))
    \<and> (\<forall>s e. 0 \<le> s \<longrightarrow> s \<le> e \<longrightarrow> py_slice its s e = take (nat (e - s)) (drop (nat s) its))"
proof -
  from built_iter [OF assms] obtain gps where gps: "MemberList_iter (list' st) = Inr gps"
    by blast
  have bool: "MemberList_bool (list' st)" by (rule built_bool [OF assms])
  let ?its = "concat (map (\<lambda>(g, ps). GroupItem (gid g) (length ps) # map MemberItem ps) gps)"
  have its: "items st = Inr ?its" using gps bool by (simp add: items_def)
  have grp: "groups (list' st) = Some (map (\<lambda>(g, ps). Info g) gps)"
    using gps bool iter_groups_sound [of "data (list' st)" _ gps]
    by (auto simp: MemberList_iter_def MemberList_bool_def split: option.splits)
  have bkt: "\<forall>(g, ps) \<in> set gps. \<exists>d. data (list' st) = Some d \<and> map_of d (gid g) = Some ps"
    using gps bool iter_groups_sound [of "data (list' st)" _ gps]
    by (auto simp: MemberList_iter_def MemberList_bool_def split: option.splits)
  have ready: "init_check en' st = (Inr (), st)" for en'
    using bool by (simp add: init_check_def)
  have sync: "pl_ops pl = map (\<lambda>(s, e). SYNC (s, e) (py_slice ?its s e)) (filter (\<lambda>(s, e). s \<le> e) ranges)"
    if q: "shard_query en' st sid ranges = (Inr (Answered dispatched msgs), st')"
      and m: "(s', pl) \<in> set msgs"
    for en' sid ranges dispatched msgs st' s' pl
  proof (cases "role_permissions en' (guild_id st) (guild_id st) (channel_id st)")
    case (Inl e)
    with q show ?thesis by (simp add: shard_query_def)
  next
    case (Inr ep)
    show ?thesis
    proof (cases "read_messages en' ep \<and> list_id_of st \<noteq> Everyone")
      case True
      with q Inr show ?thesis by (simp add: shard_query_def)
    next
      case False
      from shard_query_ready [OF Inr False ready its, where sid = sid and ranges = ranges] q m
      show ?thesis
        by (auto simp: make_payload_def split: if_splits sum.splits)
    qed
  qed
  show ?thesis
    apply (rule exI [of _ gps], rule exI [of _ ?its])
    using gps grp bkt its length_flat [of gps] sync py_slice_take_drop
    by (simp (no_asm_simp)) blast
qed

theorem flat_index_consistency_witness:
  "init_member_list ex_env ex_gml = (Inr (), ex_gml\<lparr>list' := ex_list\<rparr>)
   \<and> items (ex_gml\<lparr>list' := ex_list\<rparr>) = Inr ex_items
   \<and> length ex_items = (1 + 2) + (1 + 1)
   \<and> shard_query ex_env (ex_gml\<lparr>list' := ex_list\<rparr>) ''s1'' [(1, 4)] =
       (Inr (Answered [''s1'']
          [(''s1'', \<lparr>pl_id = Everyone, pl_guild_id = 10,
                     pl_groups = [(2, Name ''online''), (1, Name ''offline'')],
                     pl_ops = [SYNC (1, 4) [MemberItem alice, MemberItem bob,
                                            GroupItem (Name ''offline'') 1]]\<rparr>)]),
        ex_gml\<lparr>list' := ex_list, state := [(''s1'', {(1, 4)})]\<rparr>)
   \<and> py_slice ex_items 1 4 = take 3 (drop 1 ex_items)"
proof -
  have q: "shard_query ex_env (ex_gml\<lparr>list' := ex_list\<rparr>) ''s1'' [(1, 4)] =
       (Inr (Answered [''s1'']
          [(''s1'', \<lparr>pl_id = Everyone, pl_guild_id = 10,
                     pl_groups = [(2, Name ''online''), (1, Name ''offline'')],
                     pl_ops = [SYNC (1, 4) [MemberItem alice, MemberItem bob,
                                            GroupItem (Name ''offline'') 1]]\<rparr>)]),
        ex_gml\<lparr>list' := ex_list, state := [(''s1'', {(1, 4)})]\<rparr>)"
    by (simp add: ex_defs query_defs init_check_def MemberList_bool_def)
  have s: "py_slice ex_items 1 4 = take 3 (drop 1 ex_items)"
    by (simp add: py_slice_def py_bound_def ex_items_def)
  from flat_index_consistency [OF ex_build] ex_build ex_items q s show ?thesis
    by (simp add: ex_items_def)
qed

text \<open>
  C5 (permission gating). When a build succeeds, a member for whom the permission resolver
  answers with permissions that do not grant \<^verbatim>\<open>read_messages\<close> is in no bucket of the
  built list, the buckets of \<^verbatim>\<open>'online'\<close> and \<^verbatim>\<open>'offline'\<close> included.
\<close>

theorem permission_gating:
  assumes "init_member_list en st = (Inr (), st')"
    and "get_permissions en user_id (channel_id st) = Inr perms"
    and "\<not> read_messages en perms"
  shows "\<exists>d. data (list' st') = Some d \<and> (\<forall>(g, b) \<in> set d. \<forall>q \<in> set b. p_user_id q \<noteq> user_id)"
proof -
  from built [OF assms(1)] obtain d where
    d: "data (list' st') = Some d" and
    rd: "\<forall>(g, b) \<in> set d. \<forall>q \<in> set b. may_read en (channel_id st) q"
    by blast
  have "p_user_id q \<noteq> user_id" if "(g, b) \<in> set d" "q \<in> set b" for g b q
  proof
    assume "p_user_id q = user_id"
    moreover from rd that have "may_read en (channel_id st) q" by auto
    ultimately show False using assms(2,3) by (auto simp: may_read_def)
  qed
  with d show ?thesis by auto
qed

theorem permission_gating_witness:
  "init_member_list ex_env ex_gml = (Inr (), ex_gml\<lparr>list' := ex_list\<rparr>)
   \<and> get_permissions ex_env 4 (channel_id ex_gml) = Inr 0
   \<and> \<not> read_messages ex_env 0
   \<and> data (list' (ex_gml\<lparr>list' := ex_list\<rparr>)) = Some [(Name ''online'', [alice, bob]), (Name ''offline'', [carol])]
   \<and> p_user_id alice \<noteq> 4 \<and> p_user_id bob \<noteq> 4 \<and> p_user_id carol \<noteq> 4"
proof -
  have h1: "init_member_list ex_env ex_gml = (Inr (), ex_gml\<lparr>list' := ex_list\<rparr>)"
    by (rule ex_build)
  have h2: "get_permissions ex_env 4 (channel_id ex_gml) = Inr 0"
    by (simp add: ex_env_def)
  have h3: "\<not> read_messages ex_env 0"
    by (simp add: ex_env_def)
  from permission_gating [OF h1 h2 h3] h1 h2 h3 show ?thesis
    by (simp add: ex_list_def)
qed

text \<open>
  The order that \<^verbatim>\<open>get_roles\<close> and \<^verbatim>\<open>_sort_groups\<close> compute. Let \<open>kept\<close> be the hoisted roles
  whose permissions, mixed with the overwrites of the channel, grant reading, sorted by
  position with the order of the fetch kept among equal positions. After \<^verbatim>\<open>set_groups\<close> the
  groups are the bare ids of \<open>kept\<close> followed by \<^verbatim>\<open>online\<close> and \<^verbatim>\<open>offline\<close>, and in a list that
  a build leaves every bucket is sorted by the display name.
\<close>

lemma group_order:
  assumes roles: "fetch_roles en (guild_id st) = Inr roledata"
    and after: "set_groups en st = (Inr (), st2) \<or> init_member_list en st = (Inr (), st2)"
  shows "\<exists>kept.
      kept = sort_key position
               (filter (\<lambda>g. read_messages en (permissions (mix_group en (list' st2) g)))
                  (hoisted_groups roledata))
    \<and> groups (list' st2) =
         Some (map (\<lambda>g. Bare (gid g)) kept @ [Info online_group, Info offline_group])
    \<and> sorted (map position kept)
    \<and> (\<forall>k. filter (\<lambda>g. position g = k) kept =
             filter (\<lambda>g. position g = k)
               (filter (\<lambda>g. read_messages en (permissions (mix_group en (list' st2) g)))
                  (hoisted_groups roledata)))
    \<and> (init_member_list en st = (Inr (), st2) \<longrightarrow>
         (\<exists>d members. data (list' st2) = Some d
            \<and> get_member_data en (guild_id st) = Inr members
            \<and> (\<forall>(g, b) \<in> set d. sorted (map (display_name (member_nicks members)) b))))"
proof -
  let ?kept = "\<lambda>l. sort_key position
               (filter (\<lambda>g. read_messages en (permissions (mix_group en l g)))
                  (hoisted_groups roledata))"
  have grp: "groups (list' st2) =
         Some (map (\<lambda>g. Bare (gid g)) (?kept (list' st2)) @ [Info online_group, Info offline_group])"
    using after
  proof
    assume "set_groups en st = (Inr (), st2)"
    then show ?thesis using roles by (rule set_groups_groups)
  next
    assume b: "init_member_list en st = (Inr (), st2)"
    then obtain ids ps st1 sta stb where
      s1: "set_groups en st = (Inr (), st1)" and
      s2: "init_data st1 = (Inr (), sta)" and
      s3: "pass_1 en sta ps = (Inr (), stb)" and
      s4: "sort_groups en stb = (Inr (), st2)"
      by (rule init_member_list_InrE)
    have same: "groups (list' st2) = groups (list' st1)" "overwrites (list' st2) = overwrites (list' st1)"
      using init_data_frame [OF s2] pass_1_frame [OF s3] sort_groups_frame [OF s4] by simp_all
    have "mix_group en (list' st2) = mix_group en (list' st1)"
      by (rule mix_group_cong) (rule same)
    with set_groups_groups [OF s1 roles] same show ?thesis by simp
  qed
  have bk: "\<exists>d members. data (list' st2) = Some d
            \<and> get_member_data en (guild_id st) = Inr members
            \<and> (\<forall>(g, b) \<in> set d. sorted (map (display_name (member_nicks members)) b))"
    if "init_member_list en st = (Inr (), st2)"
    using built [OF that] by blast
  show ?thesis
    apply (rule exI [of _ "?kept (list' st2)"])
    using grp bk by (simp add: sort_key_stable)
qed

lemma group_order_example:
  "fetch_roles ex_env_roles (guild_id ex_gml) = Inr ex_roles
   \<and> set_groups ex_env_roles ex_gml = (Inr (), ex_gml\<lparr>list' := ex_role_list\<rparr>)
   \<and> groups ex_role_list =
       Some [Bare (RoleID 8), Bare (RoleID 5), Bare (RoleID 7), Info online_group, Info offline_group]
   \<and> fetch_roles ex_env (guild_id ex_gml) = Inr []
   \<and> init_member_list ex_env ex_gml = (Inr (), ex_gml\<lparr>list' := ex_list\<rparr>)
   \<and> groups ex_list = Some [Info online_group, Info offline_group]
   \<and> data ex_list = Some [(Name ''online'', [alice, bob]), (Name ''offline'', [carol])]
   \<and> map (display_name (member_nicks [\<lparr>m_user_id = 2, m_nick = Some ''zed''\<rparr>])) [alice, bob]
       = [''alice'', ''zed'']
   \<and> sorted [''alice'', ''zed'']"
proof -
  have r1: "fetch_roles ex_env_roles (guild_id ex_gml) = Inr ex_roles"
    by (simp add: ex_env_roles_def)
  have r2: "fetch_roles ex_env (guild_id ex_gml) = Inr []"
    by (simp add: ex_env_def)
  note a = group_order [OF r1 disjI1 [OF ex_set_groups]]
  note b = group_order [OF r2 disjI2 [OF ex_build]]
  have n: "map (display_name (member_nicks [\<lparr>m_user_id = 2, m_nick = Some ''zed''\<rparr>])) [alice, bob]
       = [''alice'', ''zed'']"
    by (simp add: display_name_def member_nicks_def py_or_def alice_def bob_def)
  have s: "sorted [''alice'', ''zed'']" by simp
  from a b r1 r2 ex_set_groups ex_build n s show ?thesis
    by (simp add: ex_role_list_def ex_list_def)
qed

text \<open>
  C6 (ordering stability), evaluated where it fails. The guild has the hoisted roles 8, 5
  and 7, which may read the channel. \<^verbatim>\<open>set_groups\<close> computes their order, but stores
  \<^verbatim>\<open>role_ids\<close> in \<^verbatim>\<open>self.list.groups\<close>, not \<^verbatim>\<open>role_groups\<close>: the groups are three bare ids
  followed by the two \<^verbatim>\<open>GroupInfo\<close> objects. Initialising the buckets reads \<^verbatim>\<open>group.gid\<close>
  of the first id and raises \<^verbatim>\<open>AttributeError\<close>: no list is built, \<^verbatim>\<open>data\<close> stays \<^verbatim>\<open>None\<close>, the
  flat sequence is empty, and the next \<^verbatim>\<open>sub\<close> raises again. A list with the role groups
  in front of \<^verbatim>\<open>online\<close> and \<^verbatim>\<open>offline\<close> is never built.
\<close>

theorem hoisted_roles_never_built:
  "fetch_roles ex_env_roles (guild_id ex_gml) = Inr ex_roles
   \<and> map gid (sort_key position
         (filter (\<lambda>g. read_messages ex_env_roles (permissions (mix_group ex_env_roles ex_role_list g)))
            (hoisted_groups ex_roles))) =
       [RoleID 8, RoleID 5, RoleID 7]
   \<and> set_groups ex_env_roles ex_gml = (Inr (), ex_gml\<lparr>list' := ex_role_list\<rparr>)
   \<and> groups ex_role_list =
       Some [Bare (RoleID 8), Bare (RoleID 5), Bare (RoleID 7), Info online_group, Info offline_group]
   \<and> sub ex_env_roles ex_gml ''s1'' = (Inl AttributeError, ex_gml\<lparr>list' := ex_role_list\<rparr>)
   \<and> \<not> MemberList_bool ex_role_list
   \<and> data ex_role_list = None
   \<and> items (ex_gml\<lparr>list' := ex_role_list\<rparr>) = Inr []
   \<and> sub ex_env_roles (ex_gml\<lparr>list' := ex_role_list\<rparr>) ''s2'' =
       (Inl AttributeError, ex_gml\<lparr>list' := ex_role_list\<rparr>)"
  by (simp add: sub_def items_def ex_defs ex_roles_def ex_env_roles_def ex_role_list_def build_defs)

text \<open>
  C7 (subscribe range handling). Let a \<^verbatim>\<open>shard_query\<close> be answered by this list (it is not
  handed over to the list of the guild), let the readiness check pass and the flat sequence
  be \<open>its\<close>, and let the state manager know the session. Then exactly one message is
  dispatched, to that session; its operations are one \<^verbatim>\<open>SYNC\<close> for each requested range
  with \<^verbatim>\<open>end >= start\<close>, in the order of the request, carrying the slice of \<open>its\<close>; the
  ranges with \<^verbatim>\<open>end < start\<close> yield nothing and stop nothing; afterwards the ranges recorded
  under the session are the ones recorded before together with the requested ranges with
  \<^verbatim>\<open>end >= start\<close>, and what is recorded under any other session is unchanged.
\<close>

theorem subscribe_ranges:
  assumes "role_permissions en (guild_id st) (guild_id st) (channel_id st) = Inr everyone_perms"
    and "\<not> (read_messages en everyone_perms \<and> list_id_of st \<noteq> Everyone)"
    and "init_check en st = (Inr (), st1)"
    and "items st1 = Inr its"
    and "fetch_raw en sid"
  shows "\<exists>pl st'.
      shard_query en st sid ranges = (Inr (Answered [sid] [(sid, pl)]), st')
    \<and> pl_ops pl = map (\<lambda>(s, e). SYNC (s, e) (py_slice its s e)) (filter (\<lambda>(s, e). s \<le> e) ranges)
    \<and> list' st' = list' st1
    \<and> (\<forall>sid'. map_of (state st') sid' =
          (if sid' = sid \<and> (\<exists>(s, e) \<in> set ranges. s \<le> e)
           then Some ((case map_of (state st) sid of None \<Rightarrow> {} | Some rs \<Rightarrow> rs)
                      \<union> {(s, e). (s, e) \<in> set ranges \<and> s \<le> e})
           else map_of (state st) sid'))"
proof -
  let ?valid = "filter (\<lambda>(s, e). s \<le> e) ranges"
  from shard_query_ready [OF assms(1-4), where sid = sid and ranges = ranges] assms(5)
  obtain pl where
    pl: "make_payload st1 (map (\<lambda>(s, e). SYNC (s, e) (py_slice its s e)) ?valid) = Inr pl" and
    q: "shard_query en st sid ranges =
          (Inr (Answered [sid] [(sid, pl)]),
           st1\<lparr>state := foldl (\<lambda>d r. state_add d sid r) (state st1) ?valid\<rparr>)"
    by auto
  have ops: "pl_ops pl = map (\<lambda>(s, e). SYNC (s, e) (py_slice its s e)) ?valid"
    using pl by (auto simp: make_payload_def split: sum.splits)
  have st: "state st1 = state st" using init_check_frame [OF assms(3)] by simp
  have ne: "?valid \<noteq> [] \<longleftrightarrow> (\<exists>(s, e) \<in> set ranges. s \<le> e)"
    by (auto simp: filter_empty_conv)
  have set_valid: "set ?valid = {(s, e). (s, e) \<in> set ranges \<and> s \<le> e}" by auto
  let ?st' = "st1\<lparr>state := foldl (\<lambda>d r. state_add d sid r) (state st1) ?valid\<rparr>"
  have rec: "\<forall>sid'. map_of (state ?st') sid' =
          (if sid' = sid \<and> (\<exists>(s, e) \<in> set ranges. s \<le> e)
           then Some ((case map_of (state st) sid of None \<Rightarrow> {} | Some rs \<Rightarrow> rs)
                      \<union> {(s, e). (s, e) \<in> set ranges \<and> s \<le> e})
           else map_of (state st) sid')"
  proof
    fix sid'
    let ?f = "foldl (\<lambda>d r. state_add d sid r) (state st) ?valid"
    let ?old = "case map_of (state st) sid of None \<Rightarrow> {} | Some rs \<Rightarrow> rs"
    note fold = map_of_foldl_state_add [of sid "state st" ?valid sid']
    have sst: "state ?st' = ?f" by (simp add: st)
    show "map_of (state ?st') sid' =
          (if sid' = sid \<and> (\<exists>(s, e) \<in> set ranges. s \<le> e)
           then Some (?old \<union> {(s, e). (s, e) \<in> set ranges \<and> s \<le> e})
           else map_of (state st) sid')"
    proof (cases "sid' = sid \<and> ?valid \<noteq> []")
      case True
      have "map_of ?f sid' = Some (?old \<union> set ?valid)"
        unfolding fold using True by (rule if_P)
      moreover from True ne have "sid' = sid \<and> (\<exists>(s, e) \<in> set ranges. s \<le> e)" by blast
      ultimately show ?thesis
        unfolding sst set_valid by simp
    next
      case False
      have "map_of ?f sid' = map_of (state st) sid'"
        unfolding fold using False by (rule if_not_P)
      moreover from False ne have "\<not> (sid' = sid \<and> (\<exists>(s, e) \<in> set ranges. s \<le> e))" by blast
      ultimately show ?thesis
        unfolding sst by (simp only: if_not_P if_False)
    qed
  qed
  have "shard_query en st sid ranges = (Inr (Answered [sid] [(sid, pl)]), ?st') \<and>
        pl_ops pl = map (\<lambda>(s, e). SYNC (s, e) (py_slice its s e)) ?valid \<and>
        list' ?st' = list' st1"
    using q ops by simp
  with rec show ?thesis by blast
qed

theorem subscribe_ranges_witness:
  "role_permissions ex_env (guild_id ex_gml) (guild_id ex_gml) (channel_id ex_gml) = Inr 1024
   \<and> \<not> (read_messages ex_env 1024 \<and> list_id_of ex_gml \<noteq> Everyone)
   \<and> init_check ex_env ex_gml = (Inr (), ex_gml\<lparr>list' := ex_list\<rparr>)
   \<and> items (ex_gml\<lparr>list' := ex_list\<rparr>) = Inr ex_items
   \<and> fetch_raw ex_env ''s1''
   \<and> shard_query ex_env ex_gml ''s1'' [(0, 2), (5, 3), (3, 5)] =
       (Inr (Answered [''s1'']
          [(''s1'', \<lparr>pl_id = Everyone, pl_guild_id = 10,
                     pl_groups = [(2, Name ''online''), (1, Name ''offline'')],
                     pl_ops = [SYNC (0, 2) [GroupItem (Name ''online'') 2, MemberItem alice],
                               SYNC (3, 5) [GroupItem (Name ''offline'') 1, MemberItem carol]]\<rparr>)]),
        ex_gml\<lparr>list' := ex_list, state := [(''s1'', {(3, 5), (0, 2)})]\<rparr>)"
proof -
  have h1: "role_permissions ex_env (guild_id ex_gml) (guild_id ex_gml) (channel_id ex_gml) = Inr 1024"
    by (simp add: ex_env_def)
  have h2: "\<not> (read_messages ex_env 1024 \<and> list_id_of ex_gml \<noteq> Everyone)"
    by (simp add: ex_defs list_id_of_def)
  have h3: "init_check ex_env ex_gml = (Inr (), ex_gml\<lparr>list' := ex_list\<rparr>)"
    using ex_build by (simp add: init_check_def ex_gml_def new_gml_def empty_list_def MemberList_bool_def)
  have h5: "fetch_raw ex_env ''s1''"
    by (simp add: ex_env_def)
  have q: "shard_query ex_env ex_gml ''s1'' [(0, 2), (5, 3), (3, 5)] =
       (Inr (Answered [''s1'']
          [(''s1'', \<lparr>pl_id = Everyone, pl_guild_id = 10,
                     pl_groups = [(2, Name ''online''), (1, Name ''offline'')],
                     pl_ops = [SYNC (0, 2) [GroupItem (Name ''online'') 2, MemberItem alice],
                               SYNC (3, 5) [GroupItem (Name ''offline'') 1, MemberItem carol]]\<rparr>)]),
        ex_gml\<lparr>list' := ex_list, state := [(''s1'', {(3, 5), (0, 2)})]\<rparr>)"
    by (simp add: ex_defs query_defs build_defs)
  from subscribe_ranges [OF h1 h2 h3 ex_items h5, of "[(0, 2), (5, 3), (3, 5)]"] h1 h2 h3 ex_items h5 q
  show ?thesis by simp
qed

text \<open>
  C8 (membership events). \<^verbatim>\<open>dispatch\<close>, the hook for membership events, hands no operation
  to any session and leaves the object as it is, whatever the event and whether or not the
  list is initialised: neither \<^verbatim>\<open>DELETE\<close> nor \<^verbatim>\<open>INSERT\<close> is emitted when a member changes
  group.
\<close>

theorem dispatch_emits_nothing: "dispatch st event dat = ([], st)"
  by (simp add: dispatch_def)



text \<open>
  C10 (unsubscribing an unknown session). \<^verbatim>\<open>unsub\<close> raises for no session id, known or
  not; \<^verbatim>\<open>sub\<close> records nothing in \<^verbatim>\<open>self.state\<close>; an \<^verbatim>\<open>unsub\<close> while \<^verbatim>\<open>self.state\<close> has no
  entry sets the list empty and changes nothing else. In particular one \<^verbatim>\<open>unsub\<close> of any
  session after a \<^verbatim>\<open>sub\<close> on a store without recorded ranges discards the list.
\<close>

theorem unsub_unknown_session:
  "fst (unsub st session_id) = Inr ()
   \<and> state (snd (sub en st sid)) = state st
   \<and> (state st = [] \<longrightarrow> snd (unsub st session_id) = st\<lparr>list' := empty_list\<rparr>)
   \<and> (state st = [] \<longrightarrow> list' (snd (unsub (snd (sub en st sid)) session_id)) = empty_list)"
proof -
  have a: "fst (unsub st session_id) = Inr ()"
    by (simp add: unsub_def Let_def)
  have b: "state (snd (sub en st sid)) = state st"
    using init_check_frame [of en st "fst (sub en st sid)" "snd (sub en st sid)"]
    by (simp add: sub_def)
  have c: "snd (unsub st' session_id) = st'\<lparr>list' := empty_list\<rparr>" if "state st' = []" for st'
    using that by (simp add: unsub_def dict_pop_def set_empty_list_def)
  from a b c show ?thesis by simp
qed

theorem unsub_unknown_session_witness:
  "state ex_gml = []
   \<and> sub ex_env ex_gml ''s1'' = (Inr (), ex_gml\<lparr>list' := ex_list\<rparr>)
   \<and> MemberList_bool ex_list
   \<and> unsub (ex_gml\<lparr>list' := ex_list\<rparr>) ''s2'' = (Inr (), ex_gml)"
proof -
  have h: "state ex_gml = []" by (simp add: ex_gml_def new_gml_def)
  have s: "sub ex_env ex_gml ''s1'' = (Inr (), ex_gml\<lparr>list' := ex_list\<rparr>)"
    using ex_build by (simp add: sub_def init_check_def ex_gml_def new_gml_def empty_list_def MemberList_bool_def)
  have b: "MemberList_bool ex_list" by (simp add: ex_list_def MemberList_bool_def)
  have u: "unsub (ex_gml\<lparr>list' := ex_list\<rparr>) ''s2'' = (Inr (), ex_gml)"
    by (simp add: unsub_def dict_pop_def set_empty_list_def ex_gml_def new_gml_def)
  from unsub_unknown_session [of ex_gml "''s2''" ex_env "''s1''"] h s b u show ?thesis by simp
qed

end
